theory Spec2Isabelle
  imports Complex_Main
begin

section \<open>JavaScript values used by the order controller\<close>

text \<open>
  The controller (\<^verbatim>\<open>backend/controllers/orderController.js\<close>) reads request fields that
  arrive as arbitrary JSON values and coerces them with \<^verbatim>\<open>Number(...)\<close>, \<^verbatim>\<open>||\<close> and
  \<^verbatim>\<open>!\<close>. A number is an IEEE 754 double: \<^verbatim>\<open>NaN\<close>, an infinity, or a finite double
  given by its exact rational value. The sign of zero is not modelled.
\<close>

datatype jsnum = NaN | PInf | NInf | Fin rat

datatype jsval =
    JUndefined
  | JNull
  | JBool bool
  | JNum jsnum
  | JStr string
  | JObj string  \<comment> \<open>an object or array, carried by the string its \<^verbatim>\<open>toString\<close> yields\<close>

text \<open>\<^verbatim>\<open>a < b\<close> on numbers: false as soon as one side is \<^verbatim>\<open>NaN\<close>.\<close>

fun js_lt :: "jsnum \<Rightarrow> jsnum \<Rightarrow> bool" where
  "js_lt NaN y = False"
| "js_lt x NaN = False"
| "js_lt (Fin a) (Fin b) = (a < b)"
| "js_lt (Fin a) PInf = True"
| "js_lt (Fin a) NInf = False"
| "js_lt NInf NInf = False"
| "js_lt NInf y = True"
| "js_lt PInf y = False"

subsection \<open>Rounding to a double\<close>

text \<open>The number of binary digits of a natural number.\<close>

fun bit_length :: "nat \<Rightarrow> nat" where
  "bit_length n = (if n = 0 then 0 else Suc (bit_length (n div 2)))"

declare bit_length.simps [simp del]

text \<open>\<open>2\<close> to an integer power.\<close>

definition pow2 :: "int \<Rightarrow> rat" where
  "pow2 k = (if 0 \<le> k then 2 ^ nat k else 1 / 2 ^ nat (- k))"

text \<open>For \<open>0 < a\<close>, the exponent \<open>e\<close> with \<open>2\<^sup>e \<le> a < 2\<^bsup>e+1\<^esup>\<close>.\<close>

definition float_exponent :: "rat \<Rightarrow> int" where
  "float_exponent a =
     (if 1 \<le> a then int (bit_length (nat \<lfloor>a\<rfloor>)) - 1
      else - int (bit_length (nat (\<lceil>1 / a\<rceil> - 1))))"

text \<open>The nearest integer, a tie going to the even one.\<close>

definition round_half_even :: "rat \<Rightarrow> int" where
  "round_half_even x =
     (let n = \<lfloor>x\<rfloor>; f = x - of_int n
      in if f < 1 / 2 then n else if 1 / 2 < f then n + 1 else if even n then n else n + 1)"

text \<open>
  The double nearest to an exact value (IEEE 754 binary64, round to nearest, ties to
  even): 53 significant binary digits, the last digit never below \<open>2\<^bsup>-1074\<^esup>\<close>, and
  an infinity once the rounded value reaches \<open>2\<^bsup>1024\<^esup>\<close>.
\<close>

definition to_double :: "rat \<Rightarrow> jsnum" where
  "to_double x =
     (if x = 0 then Fin 0
      else (let a = \<bar>x\<bar>;
                q = max (float_exponent a - 52) (- 1074);
                v = of_int (round_half_even (a / pow2 q)) * pow2 q
            in if 2 ^ 1024 \<le> v then (if 0 < x then PInf else NInf)
               else Fin (if 0 < x then v else - v)))"

text \<open>\<^verbatim>\<open>a * b\<close> on numbers: the exact product of two finite doubles, rounded to a
  double.\<close>

definition js_mul :: "jsnum \<Rightarrow> jsnum \<Rightarrow> jsnum" where
  "js_mul x y =
     (case (x, y) of
        (Fin a, Fin b) \<Rightarrow> to_double (a * b)
      | _ \<Rightarrow> if x = NaN \<or> y = NaN \<or> x = Fin 0 \<or> y = Fin 0 then NaN
             else if js_lt x (Fin 0) = js_lt y (Fin 0) then PInf else NInf)"

text \<open>\<^verbatim>\<open>Math.round\<close>: the nearest integer, a tie going towards \<open>+\<infinity>\<close>. It is
  computed on the exact value of the double, and the result is a double again.\<close>

fun Math_round :: "jsnum \<Rightarrow> jsnum" where
  "Math_round (Fin r) = Fin (of_int \<lfloor>r + 1 / 2\<rfloor>)"
| "Math_round x = x"

text \<open>
  \<^verbatim>\<open>Number(v)\<close>. The conversion of a string is the language's \<^verbatim>\<open>StringToNumber\<close>; it
  is a parameter \<open>sn\<close> of the model, so every result below holds for whatever that
  function is. An ordinary object or array converts through its string.
\<close>

fun Number :: "(string \<Rightarrow> jsnum) \<Rightarrow> jsval \<Rightarrow> jsnum" where
  "Number sn JUndefined = NaN"
| "Number sn JNull = Fin 0"
| "Number sn (JBool b) = Fin (if b then 1 else 0)"
| "Number sn (JNum n) = n"
| "Number sn (JStr s) = sn s"
| "Number sn (JObj s) = sn s"

text \<open>Truthiness, as \<^verbatim>\<open>!v\<close>, \<^verbatim>\<open>a || b\<close> and \<^verbatim>\<open>c ? x : y\<close> test it.\<close>

fun truthy_num :: "jsnum \<Rightarrow> bool" where
  "truthy_num NaN = False"
| "truthy_num (Fin r) = (r \<noteq> 0)"
| "truthy_num x = True"

fun truthy :: "jsval \<Rightarrow> bool" where
  "truthy JUndefined = False"
| "truthy JNull = False"
| "truthy (JBool b) = b"
| "truthy (JNum n) = truthy_num n"
| "truthy (JStr s) = (s \<noteq> [])"
| "truthy (JObj s) = True"

definition js_or :: "jsval \<Rightarrow> jsval \<Rightarrow> jsval" where
  "js_or a b = (if truthy a then a else b)"

definition num_or :: "jsnum \<Rightarrow> jsnum \<Rightarrow> jsnum" where
  "num_or a b = (if truthy_num a then a else b)"

section \<open>Data model\<close>

text \<open>
  An element of \<^verbatim>\<open>req.body.items\<close>, read through the five properties the controller
  touches. A property that is absent reads as \<open>JUndefined\<close>. The array element itself
  may be \<^verbatim>\<open>null\<close>; that is \<open>None\<close> in an \<open>item option\<close>.
\<close>

record item =
  i_id :: jsval
  i_name :: jsval
  i_price :: jsval
  i_quantity :: jsval
  i_image :: jsval

text \<open>The object built by the callback of \<^verbatim>\<open>items.map\<close>; \<open>n_image\<close> is \<open>None\<close> when
  the \<^verbatim>\<open>image\<close> key is left out.\<close>

record norm_item =
  n_id :: jsval
  n_name :: jsval
  n_price :: jsnum
  n_quantity :: jsnum
  n_image :: "jsval option"

text \<open>
  Modelled from the spec: the order and user documents (\<^verbatim>\<open>models/orderModel.js\<close> and
  \<^verbatim>\<open>models/userModel.js\<close> are not part of the sources). An order carries the fields the
  controller writes; the identifier \<^verbatim>\<open>_id\<close> is kept in its string form. The store keeps
  the values it is given.
\<close>

record order =
  o_id :: string
  userId :: jsval
  items :: "norm_item list"
  amount :: jsval
  address :: jsval
  payment :: bool
  paymentMethod :: jsval
  status :: jsval
  createdAt :: nat
  stripeSessionId :: jsval

type_synonym cart = "(string \<times> nat) list"

text \<open>One element of \<^verbatim>\<open>line_items\<close> in the checkout-session request.\<close>

record line_item =
  currency :: string
  product_name :: jsval
  unit_amount :: jsnum
  li_quantity :: jsnum

text \<open>\<^verbatim>\<open>`${frontend_url}/verify?success=${flag}&orderId=${id}`\<close>, kept by its parts.\<close>

datatype url = Verify_url string bool string

text \<open>The argument of \<^verbatim>\<open>stripe.checkout.sessions.create\<close> (the constant fields
  \<^verbatim>\<open>payment_method_types\<close> and \<^verbatim>\<open>mode\<close> are left out).\<close>

record checkout_request =
  line_items :: "line_item list"
  success_url :: url
  cancel_url :: url
  metadata_orderId :: string

text \<open>
  The state outside the controller: the order collection in insertion order, the cart
  of each user (keyed by the user identifier), and the requests sent to the payment
  gateway so far.
\<close>

record world =
  orders :: "order list"
  carts :: "(jsval \<times> cart) list"
  gateway :: "checkout_request list"

text \<open>Environment variables; \<open>None\<close> is an unset variable.\<close>

record config =
  FRONTEND_URL :: "string option"
  DELIVERY_FEE :: "string option"
  STRIPE_WEBHOOK_SECRET :: "string option"

subsection \<open>Responses\<close>

text \<open>Exceptions that reach a \<^verbatim>\<open>catch\<close>.\<close>

datatype exn =
    Invalid_price jsval  \<comment> \<open>\<^verbatim>\<open>new Error(`Invalid price for item ${...}`)\<close>\<close>
  | TypeError  \<comment> \<open>a property read on \<^verbatim>\<open>null\<close> or \<^verbatim>\<open>undefined\<close>\<close>
  | Rejected string  \<comment> \<open>a store or gateway call that rejects, with its message\<close>

datatype message =
    Text string
  | Invalid_price_for_item jsval  \<comment> \<open>the text \<^verbatim>\<open>Invalid price for item\<close> followed by the value\<close>
  | TypeError_text

datatype body =
    Message bool message  \<comment> \<open>\<^verbatim>\<open>{ success, message }\<close>\<close>
  | Order_placed order message  \<comment> \<open>\<^verbatim>\<open>{ success: true, order, message }\<close>\<close>
  | Session_url jsval  \<comment> \<open>\<^verbatim>\<open>{ success: true, session_url }\<close>\<close>
  | Received  \<comment> \<open>\<^verbatim>\<open>{ received: true }\<close>\<close>
  | Webhook_error string  \<comment> \<open>\<^verbatim>\<open>`Webhook Error: ${err.message}`\<close>\<close>
  | Empty_body

record response =
  code :: nat
  content :: body

definition respond :: "nat \<Rightarrow> body \<Rightarrow> response" where
  "respond c b = \<lparr>code = c, content = b\<rparr>"

text \<open>\<^verbatim>\<open>error.message || 'Internal Server Error'\<close>\<close>

fun message_or_default :: "exn \<Rightarrow> message" where
  "message_or_default (Invalid_price v) = Invalid_price_for_item v"
| "message_or_default TypeError = TypeError_text"
| "message_or_default (Rejected m) = Text (if m \<noteq> [] then m else ''Internal Server Error'')"

section \<open>Store operations\<close>

text \<open>
  \<^verbatim>\<open>orderModel.findByIdAndUpdate(id, update)\<close> when it resolves: the first document
  whose identifier is \<open>v\<close> is updated; with no such document nothing changes. A call
  that rejects (the store is unreachable, or \<open>v\<close> cannot be cast to an identifier) is
  given to each handler as an outcome of the outside world.
\<close>

fun findByIdAndUpdate :: "jsval \<Rightarrow> (order \<Rightarrow> order) \<Rightarrow> order list \<Rightarrow> order list" where
  "findByIdAndUpdate v f [] = []"
| "findByIdAndUpdate v f (d # ds) =
     (if v = JStr (o_id d) then f d # ds else d # findByIdAndUpdate v f ds)"

text \<open>\<^verbatim>\<open>orderModel.findOne({ stripeSessionId: sid })\<close>\<close>

fun findOne_by_session :: "jsval \<Rightarrow> order list \<Rightarrow> order option" where
  "findOne_by_session sid [] = None"
| "findOne_by_session sid (d # ds) =
     (if stripeSessionId d = sid then Some d else findOne_by_session sid ds)"

text \<open>Reading a document by identifier (used to state results).\<close>

fun find_order :: "string \<Rightarrow> order list \<Rightarrow> order option" where
  "find_order i [] = None"
| "find_order i (d # ds) = (if o_id d = i then Some d else find_order i ds)"

text \<open>\<^verbatim>\<open>userModel.findByIdAndUpdate(userId, { cartData: {} })\<close>\<close>

fun clear_cart :: "jsval \<Rightarrow> (jsval \<times> cart) list \<Rightarrow> (jsval \<times> cart) list" where
  "clear_cart u [] = []"
| "clear_cart u ((k, c) # cs) = (if k = u then (k, []) # cs else (k, c) # clear_cart u cs)"

section \<open>placeOrder\<close>

text \<open>
  The request as \<^verbatim>\<open>placeOrder\<close> reads it; \<^verbatim>\<open>req.body\<close> is the object a body parser
  has left there. \<open>req_user\<close> is \<^verbatim>\<open>req.user\<close> with its \<^verbatim>\<open>id\<close> and \<^verbatim>\<open>_id\<close> (\<open>None\<close>
  when the middleware set none); \<open>body_items\<close> is \<open>None\<close> when \<^verbatim>\<open>items\<close> is missing or
  not an array.
\<close>

record place_req =
  body_userId :: jsval
  req_userId :: jsval
  req_user :: "(jsval \<times> jsval) option"
  body_items :: "item option list option"
  body_amount :: jsval
  body_address :: jsval
  body_paymentMethod :: jsval

text \<open>The session object the gateway returns.\<close>

record created_session =
  session_id :: jsval
  session_url :: jsval

text \<open>
  What the outside world answers during one call of \<^verbatim>\<open>placeOrder\<close>: the identifier and
  the date given to the new document, and for each awaited call whether it resolves.
  \<open>Some m\<close> and \<open>Inl m\<close> are a rejection with message \<open>m\<close>.
\<close>

record place_ext =
  new_id :: string
  now :: nat
  save_result :: "string option"
  cart_clear_fails :: bool
  session_result :: "string + created_session"
  session_update_result :: "string option"

text \<open>The response of the outer \<^verbatim>\<open>catch\<close>.\<close>

definition caught :: "exn \<Rightarrow> response" where
  "caught e = respond 500 (Message False (message_or_default e))"

text \<open>\<^verbatim>\<open>req.body.userId || req.userId || (req.user && (req.user.id || req.user._id))\<close>\<close>

definition resolve_userId :: "place_req \<Rightarrow> jsval" where
  "resolve_userId r =
     js_or (js_or (body_userId r) (req_userId r))
       (case req_user r of None \<Rightarrow> JUndefined | Some (a, b) \<Rightarrow> js_or a b)"

text \<open>The callback of \<^verbatim>\<open>items.map\<close> on an element that is an object.\<close>

definition normalize_item :: "(string \<Rightarrow> jsnum) \<Rightarrow> item \<Rightarrow> exn + norm_item" where
  "normalize_item sn it =
     (let priceNum = Number sn (i_price it);
          quantityNum = num_or (Number sn (i_quantity it)) (Fin 1)
      in if priceNum = NaN \<or> js_lt priceNum (Fin 0)
         then Inl (Invalid_price (js_or (i_name it) (i_id it)))
         else Inr \<lparr>n_id = i_id it, n_name = i_name it, n_price = priceNum,
                   n_quantity = quantityNum,
                   n_image = (if truthy (i_image it) then Some (i_image it) else None)\<rparr>)"

text \<open>\<^verbatim>\<open>items.map(...)\<close>, left to right; the first exception ends it.\<close>

fun normalize_items :: "(string \<Rightarrow> jsnum) \<Rightarrow> item option list \<Rightarrow> exn + norm_item list" where
  "normalize_items sn [] = Inr []"
| "normalize_items sn (None # rest) = Inl TypeError"
| "normalize_items sn (Some it # rest) =
     (case normalize_item sn it of
        Inl e \<Rightarrow> Inl e
      | Inr n \<Rightarrow> (case normalize_items sn rest of Inl e \<Rightarrow> Inl e | Inr ns \<Rightarrow> Inr (n # ns)))"

definition new_order ::
  "place_ext \<Rightarrow> place_req \<Rightarrow> jsval \<Rightarrow> norm_item list \<Rightarrow> jsval \<Rightarrow> order" where
  "new_order ext r uid normalizedItems pm =
     \<lparr>o_id = new_id ext, userId = uid, items = normalizedItems, amount = body_amount r,
      address = body_address r, payment = False, paymentMethod = pm,
      status = JStr (if pm = JStr ''stripe'' then ''awaiting_payment'' else ''pending''),
      createdAt = now ext, stripeSessionId = JUndefined\<rparr>"

text \<open>One gateway line item per normalized item.\<close>

definition to_line_item :: "norm_item \<Rightarrow> line_item" where
  "to_line_item it =
     \<lparr>currency = ''lkr'', product_name = js_or (n_name it) (JStr ''Item''),
      unit_amount = Math_round (js_mul (n_price it) (Fin 100)),
      li_quantity = n_quantity it\<rparr>"

definition env_value :: "string option \<Rightarrow> jsval" where
  "env_value v = (case v of None \<Rightarrow> JUndefined | Some s \<Rightarrow> JStr s)"

text \<open>\<^verbatim>\<open>Number(process.env.DELIVERY_FEE) || 80\<close>\<close>

definition delivery_fee :: "(string \<Rightarrow> jsnum) \<Rightarrow> config \<Rightarrow> jsnum" where
  "delivery_fee sn cfg = num_or (Number sn (env_value (DELIVERY_FEE cfg))) (Fin 80)"

definition delivery_line :: "jsnum \<Rightarrow> line_item" where
  "delivery_line fee =
     \<lparr>currency = ''lkr'', product_name = JStr ''Delivery Charges'',
      unit_amount = Math_round (js_mul fee (Fin 100)), li_quantity = Fin 1\<rparr>"

definition build_line_items :: "(string \<Rightarrow> jsnum) \<Rightarrow> config \<Rightarrow> norm_item list \<Rightarrow> line_item list" where
  "build_line_items sn cfg normalizedItems =
     (let fee = delivery_fee sn cfg
      in map to_line_item normalizedItems @ (if js_lt (Fin 0) fee then [delivery_line fee] else []))"

text \<open>\<^verbatim>\<open>process.env.FRONTEND_URL || 'http://localhost:5173'\<close>\<close>

definition frontend_url :: "config \<Rightarrow> string" where
  "frontend_url cfg =
     (case FRONTEND_URL cfg of
        None \<Rightarrow> ''http://localhost:5173''
      | Some s \<Rightarrow> if s \<noteq> [] then s else ''http://localhost:5173'')"

definition session_request :: "(string \<Rightarrow> jsnum) \<Rightarrow> config \<Rightarrow> norm_item list \<Rightarrow> order \<Rightarrow> checkout_request" where
  "session_request sn cfg normalizedItems newOrder =
     \<lparr>line_items = build_line_items sn cfg normalizedItems,
      success_url = Verify_url (frontend_url cfg) True (o_id newOrder),
      cancel_url = Verify_url (frontend_url cfg) False (o_id newOrder),
      metadata_orderId = o_id newOrder\<rparr>"

text \<open>The online-payment part: from building the line items to the final response.\<close>

definition checkout ::
  "(string \<Rightarrow> jsnum) \<Rightarrow> config \<Rightarrow> place_ext \<Rightarrow> norm_item list \<Rightarrow> order \<Rightarrow> world \<Rightarrow> world \<times> response" where
  "checkout sn cfg ext normalizedItems newOrder w =
     (let w3 = w\<lparr>gateway := gateway w @ [session_request sn cfg normalizedItems newOrder]\<rparr>
      in case session_result ext of
           Inl m \<Rightarrow> (w3, caught (Rejected m))
         | Inr session \<Rightarrow>
             (case session_update_result ext of
                Some m \<Rightarrow> (w3, caught (Rejected m))
              | None \<Rightarrow>
                  (let w4 = w3\<lparr>orders :=
                              findByIdAndUpdate (JStr (o_id newOrder))
                                (\<lambda>d. d\<lparr>stripeSessionId := session_id session\<rparr>) (orders w3)\<rparr>
                   in if \<not> truthy (session_url session)
                      then (w4, respond 500
                                  (Message False (Text ''Failed to create Stripe checkout session'')))
                      else (w4, respond 200 (Session_url (session_url session))))))"

text \<open>From \<^verbatim>\<open>newOrder.save()\<close> on.\<close>

definition save_and_pay ::
  "(string \<Rightarrow> jsnum) \<Rightarrow> config \<Rightarrow> place_ext \<Rightarrow> jsval \<Rightarrow> norm_item list \<Rightarrow> order \<Rightarrow> world \<Rightarrow> world \<times> response" where
  "save_and_pay sn cfg ext uid normalizedItems newOrder w =
     (case save_result ext of
        Some m \<Rightarrow> (w, caught (Rejected m))
      | None \<Rightarrow>
          (let w1 = w\<lparr>orders := orders w @ [newOrder]\<rparr>;
               w2 = (if cart_clear_fails ext then w1 else w1\<lparr>carts := clear_cart uid (carts w1)\<rparr>)
           in if paymentMethod newOrder = JStr ''cod'' \<or> paymentMethod newOrder = JStr ''none''
              then (w2, respond 201
                          (Order_placed newOrder (Text ''Order placed (no online payment required).'')))
              else checkout sn cfg ext normalizedItems newOrder w2))"

definition placeOrder ::
  "(string \<Rightarrow> jsnum) \<Rightarrow> config \<Rightarrow> place_ext \<Rightarrow> place_req \<Rightarrow> world \<Rightarrow> world \<times> response" where
  "placeOrder sn cfg ext r w =
     (let uid = resolve_userId r
      in if \<not> truthy uid
         then (w, respond 401 (Message False (Text ''Unauthorized: userId missing'')))
         else (case body_items r of
                 None \<Rightarrow> (w, respond 400 (Message False (Text ''Cart is empty'')))
               | Some its \<Rightarrow>
                   if its = [] then (w, respond 400 (Message False (Text ''Cart is empty'')))
                   else (case normalize_items sn its of
                           Inl e \<Rightarrow> (w, caught e)
                         | Inr normalizedItems \<Rightarrow>
                             (let pm = (if body_paymentMethod r = JUndefined then JStr ''stripe''
                                        else body_paymentMethod r)
                              in save_and_pay sn cfg ext uid normalizedItems
                                   (new_order ext r uid normalizedItems pm) w))))"

section \<open>verifyOrder and updateStatus\<close>

text \<open>\<^verbatim>\<open>const { orderId, success } = req.body\<close>, and whether the awaited update rejects.\<close>

record verify_req =
  v_orderId :: jsval
  v_success :: jsval
  v_update_result :: "string option"

definition mark_paid :: "order \<Rightarrow> order" where
  "mark_paid d = d\<lparr>payment := True, status := JStr ''confirmed''\<rparr>"

definition verifyOrder :: "verify_req \<Rightarrow> world \<Rightarrow> world \<times> response" where
  "verifyOrder r w =
     (if \<not> truthy (v_orderId r)
      then (w, respond 400 (Message False (Text ''orderId required'')))
      else if v_success r = JStr ''true'' \<or> v_success r = JBool True
      then (case v_update_result r of
              Some m \<Rightarrow> (w, respond 500 (Message False (Text ''Error'')))
            | None \<Rightarrow>
                (w\<lparr>orders := findByIdAndUpdate (v_orderId r) mark_paid (orders w)\<rparr>,
                 respond 200 (Message True (Text ''Paid''))))
      else (case v_update_result r of
              Some m \<Rightarrow> (w, respond 500 (Message False (Text ''Error'')))
            | None \<Rightarrow>
                (w\<lparr>orders := findByIdAndUpdate (v_orderId r)
                                (\<lambda>d. d\<lparr>status := JStr ''cancelled''\<rparr>) (orders w)\<rparr>,
                 respond 200 (Message False (Text ''Not Paid'')))))"

text \<open>\<^verbatim>\<open>const { orderId, status } = req.body\<close>, and whether the awaited update rejects.\<close>

record status_req =
  s_orderId :: jsval
  s_status :: jsval
  s_update_result :: "string option"

definition updateStatus :: "status_req \<Rightarrow> world \<Rightarrow> world \<times> response" where
  "updateStatus r w =
     (if \<not> truthy (s_orderId r) \<or> \<not> truthy (s_status r)
      then (w, respond 400 (Message False (Text ''orderId and status required'')))
      else (case s_update_result r of
              Some m \<Rightarrow> (w, respond 500 (Message False (Text ''Error'')))
            | None \<Rightarrow>
                (w\<lparr>orders := findByIdAndUpdate (s_orderId r)
                                (\<lambda>d. d\<lparr>status := s_status r\<rparr>) (orders w)\<rparr>,
                 respond 200 (Message True (Text ''Status Updated'')))))"

section \<open>stripeWebhookHandler\<close>

text \<open>
  \<^verbatim>\<open>event.data.object\<close> as the handler reads it: \<open>metadata\<close> is \<open>None\<close> when
  \<^verbatim>\<open>session.metadata\<close> is falsy and otherwise holds \<^verbatim>\<open>session.metadata.orderId\<close>;
  \<open>es_id\<close> is \<^verbatim>\<open>session.id\<close>.
\<close>

record event_session =
  metadata :: "jsval option"
  es_id :: jsval

text \<open>An event: \<^verbatim>\<open>event.type\<close> and \<^verbatim>\<open>event.data.object\<close> (\<open>None\<close> when \<^verbatim>\<open>event.data\<close>
  is missing).\<close>

record event =
  ev_type :: jsval
  data_object :: "event_session option"

text \<open>
  One delivery: the request body read as an event (used when no secret is configured;
  \<^verbatim>\<open>req.body\<close> is the object a body parser has left there),
  the outcome of \<^verbatim>\<open>stripe.webhooks.constructEvent(req.body, sig, webhookSecret)\<close>
  (\<open>Inl m\<close> when it throws with message \<open>m\<close>), and whether the awaited
  \<^verbatim>\<open>findOne\<close> and \<^verbatim>\<open>findByIdAndUpdate\<close> reject.
\<close>

record delivery =
  body_event :: event
  constructEvent :: "string + event"
  find_result :: "string option"
  update_result :: "string option"

text \<open>A handler either sends a response or lets an exception escape.\<close>

datatype outcome = Responded response | Unhandled exn

definition webhookSecret_set :: "config \<Rightarrow> bool" where
  "webhookSecret_set cfg =
     (case STRIPE_WEBHOOK_SECRET cfg of None \<Rightarrow> False | Some s \<Rightarrow> s \<noteq> [])"

text \<open>The first \<^verbatim>\<open>try\<close> block: the event, or the message of the exception.\<close>

definition verified_event :: "config \<Rightarrow> delivery \<Rightarrow> string + event" where
  "verified_event cfg dl =
     (if \<not> webhookSecret_set cfg then Inr (body_event dl) else constructEvent dl)"

text \<open>\<^verbatim>\<open>session.metadata && session.metadata.orderId\<close>\<close>

definition session_orderId :: "event_session \<Rightarrow> jsval" where
  "session_orderId session = (case metadata session of None \<Rightarrow> JUndefined | Some v \<Rightarrow> v)"

text \<open>The second \<^verbatim>\<open>try\<close> block, for a \<^verbatim>\<open>checkout.session.completed\<close> event: the new
  order collection, or the exception that its \<^verbatim>\<open>catch\<close> receives.\<close>

definition confirm_session :: "delivery \<Rightarrow> event_session \<Rightarrow> order list \<Rightarrow> exn + order list" where
  "confirm_session dl session os =
     (let orderId = session_orderId session
      in if truthy orderId
         then (case update_result dl of
                 Some m \<Rightarrow> Inl (Rejected m)
               | None \<Rightarrow> Inr (findByIdAndUpdate orderId mark_paid os))
         else if truthy (es_id session)
         then (case find_result dl of
                 Some m \<Rightarrow> Inl (Rejected m)
               | None \<Rightarrow>
                   (case findOne_by_session (es_id session) os of
                      Some d \<Rightarrow>
                        (case update_result dl of
                           Some m \<Rightarrow> Inl (Rejected m)
                         | None \<Rightarrow> Inr (findByIdAndUpdate (JStr (o_id d)) mark_paid os))
                    | None \<Rightarrow> Inr os))
         else Inr os)"

definition stripeWebhookHandler :: "config \<Rightarrow> delivery \<Rightarrow> world \<Rightarrow> world \<times> outcome" where
  "stripeWebhookHandler cfg dl w =
     (case verified_event cfg dl of
        Inl m \<Rightarrow> (w, Responded (respond 400 (Webhook_error m)))
      | Inr event \<Rightarrow>
          if ev_type event = JStr ''checkout.session.completed''
          then (case data_object event of
                  None \<Rightarrow> (w, Unhandled TypeError)
                | Some session \<Rightarrow>
                    (case confirm_session dl session (orders w) of
                       Inl e \<Rightarrow> (w, Responded (respond 500 Empty_body))
                     | Inr os \<Rightarrow> (w\<lparr>orders := os\<rparr>, Responded (respond 200 Received))))
          else (w, Responded (respond 200 Received)))"

section \<open>Sequences of requests\<close>

datatype call =
    PlaceOrder place_ext place_req
  | VerifyOrder verify_req
  | Webhook delivery
  | UpdateStatus status_req

fun handle :: "(string \<Rightarrow> jsnum) \<Rightarrow> config \<Rightarrow> world \<Rightarrow> call \<Rightarrow> world" where
  "handle sn cfg w (PlaceOrder ext r) = fst (placeOrder sn cfg ext r w)"
| "handle sn cfg w (VerifyOrder r) = fst (verifyOrder r w)"
| "handle sn cfg w (Webhook dl) = fst (stripeWebhookHandler cfg dl w)"
| "handle sn cfg w (UpdateStatus r) = fst (updateStatus r w)"

definition run :: "(string \<Rightarrow> jsnum) \<Rightarrow> config \<Rightarrow> world \<Rightarrow> call list \<Rightarrow> world" where
  "run sn cfg w cs = foldl (handle sn cfg) w cs"

section \<open>Properties to be checked\<close>

text \<open>The test \<^verbatim>\<open>Number.isNaN(priceNum) || priceNum < 0\<close> on an item.\<close>

definition invalid_price :: "(string \<Rightarrow> jsnum) \<Rightarrow> item \<Rightarrow> bool" where
  "invalid_price sn it = (Number sn (i_price it) = NaN \<or> js_lt (Number sn (i_price it)) (Fin 0))"

text \<open>Whether the callback of \<^verbatim>\<open>items.map\<close> throws on an element.\<close>

fun throws :: "(string \<Rightarrow> jsnum) \<Rightarrow> item option \<Rightarrow> bool" where
  "throws sn None = True"
| "throws sn (Some it) = invalid_price sn it"

text \<open>The order invariant of the data model: a paid order is a confirmed one.\<close>

definition paid_is_confirmed :: "order \<Rightarrow> bool" where
  "paid_is_confirmed d = (if payment d then status d = JStr ''confirmed'' else True)"

definition payment_implies_confirmed :: "world \<Rightarrow> bool" where
  "payment_implies_confirmed w = list_all paid_is_confirmed (orders w)"

text \<open>The calls that write \<^verbatim>\<open>status\<close> only together with \<^verbatim>\<open>payment: true\<close>, or write
  \<^verbatim>\<open>'confirmed'\<close>, or create an unpaid order.\<close>

fun confirming :: "call \<Rightarrow> bool" where
  "confirming (PlaceOrder ext r) = True"
| "confirming (VerifyOrder r) = (v_success r = JStr ''true'' \<or> v_success r = JBool True)"
| "confirming (Webhook dl) = True"
| "confirming (UpdateStatus r) = (s_status r = JStr ''confirmed'')"

text \<open>A whole number.\<close>

definition whole :: "rat \<Rightarrow> bool" where
  "whole v = (of_int \<lfloor>v\<rfloor> = v)"

text \<open>
  An amount in the smallest currency unit: \<open>u\<close> is \<open>x\<close> rounded to the nearest whole
  number, a tie going up; an \<open>x\<close> that is not finite is kept.
\<close>

definition rounded_amount :: "jsnum \<Rightarrow> jsnum \<Rightarrow> bool" where
  "rounded_amount x u =
     (case x of
        Fin a \<Rightarrow> (case u of Fin v \<Rightarrow> whole v \<and> v - 1 / 2 \<le> a \<and> a < v + 1 / 2 | _ \<Rightarrow> False)
      | _ \<Rightarrow> u = x)"

text \<open>The gateway line of an order item: the rounded amount of the converted price times
  100, and the normalized quantity.\<close>

definition item_line :: "(string \<Rightarrow> jsnum) \<Rightarrow> item \<Rightarrow> line_item \<Rightarrow> bool" where
  "item_line sn it l =
     (rounded_amount (js_mul (Number sn (i_price it)) (Fin 100)) (unit_amount l) \<and>
      li_quantity l = num_or (Number sn (i_quantity it)) (Fin 1))"

text \<open>The gateway line of a delivery fee.\<close>

definition delivery_line_for :: "jsnum \<Rightarrow> line_item \<Rightarrow> bool" where
  "delivery_line_for fee l =
     (product_name l = JStr ''Delivery Charges'' \<and> li_quantity l = Fin 1 \<and>
      rounded_amount (js_mul fee (Fin 100)) (unit_amount l))"

text \<open>A rejection of a store call that the webhook handler really awaits.\<close>

definition store_failure :: "delivery \<Rightarrow> event_session \<Rightarrow> order list \<Rightarrow> bool" where
  "store_failure dl session os =
     (if truthy (session_orderId session) then update_result dl \<noteq> None
      else if truthy (es_id session)
      then (find_result dl \<noteq> None \<or>
            (findOne_by_session (es_id session) os \<noteq> None \<and> update_result dl \<noteq> None))
      else False)"

text \<open>No order is resolved for the session: none with the identifier of the metadata,
  or, without metadata, none with the session identifier.\<close>

definition no_matching_order :: "event_session \<Rightarrow> order list \<Rightarrow> bool" where
  "no_matching_order session os =
     (if truthy (session_orderId session)
      then list_all (\<lambda>d. JStr (o_id d) \<noteq> session_orderId session) os
      else if truthy (es_id session) then findOne_by_session (es_id session) os = None
      else True)"

text \<open>The calls of \<^verbatim>\<open>placeOrder\<close> that get past \<^verbatim>\<open>await newOrder.save()\<close>: the user
  identifier resolves, \<^verbatim>\<open>items\<close> is a non-empty array that normalizes, and the save
  resolves.\<close>

definition persists :: "(string \<Rightarrow> jsnum) \<Rightarrow> place_ext \<Rightarrow> place_req \<Rightarrow> bool" where
  "persists sn ext r =
     (truthy (resolve_userId r) \<and>
      (case body_items r of
         None \<Rightarrow> False
       | Some its \<Rightarrow> its \<noteq> [] \<and> (case normalize_items sn its of Inl e \<Rightarrow> False | Inr ns \<Rightarrow> True)) \<and>
      save_result ext = None)"

text \<open>The order collection after a \<^verbatim>\<open>checkout.session.completed\<close> delivery whose store
  calls all resolve: the order named by the metadata, or else the one carrying the session
  identifier, is marked as paid.\<close>

definition confirmed_orders :: "event_session \<Rightarrow> order list \<Rightarrow> order list" where
  "confirmed_orders session os =
     (if truthy (session_orderId session)
      then findByIdAndUpdate (session_orderId session) mark_paid os
      else if truthy (es_id session)
      then (case findOne_by_session (es_id session) os of
              Some d \<Rightarrow> findByIdAndUpdate (JStr (o_id d)) mark_paid os
            | None \<Rightarrow> os)
      else os)"

definition acknowledged :: outcome where
  "acknowledged = Responded (respond 200 Received)"

text \<open>The cart of a user.\<close>

definition cart_of :: "jsval \<Rightarrow> world \<Rightarrow> cart option" where
  "cart_of u w = map_of (carts w) u"

section \<open>Concrete requests\<close>

text \<open>A string conversion for the examples below; on the strings that occur there it
  gives what \<^verbatim>\<open>Number\<close> gives.\<close>

definition sn_example :: "string \<Rightarrow> jsnum" where
  "sn_example s = (if s = ''0'' then Fin 0 else if s = ''80'' then Fin 80 else NaN)"

definition cfg_fee :: "string option \<Rightarrow> config" where
  "cfg_fee fee = \<lparr>FRONTEND_URL = None, DELIVERY_FEE = fee, STRIPE_WEBHOOK_SECRET = Some ''whsec''\<rparr>"

definition ext_ok :: place_ext where
  "ext_ok = \<lparr>new_id = ''o1'', now = 0, save_result = None, cart_clear_fails = False,
            session_result = Inr \<lparr>session_id = JStr ''cs_1'', session_url = JStr ''https://pay''\<rparr>,
            session_update_result = None\<rparr>"

definition w0 :: world where
  "w0 = \<lparr>orders = [], carts = [(JStr ''u1'', [(''p1'', 2)])], gateway = []\<rparr>"

definition mk_item :: "string \<Rightarrow> jsval \<Rightarrow> jsval \<Rightarrow> item" where
  "mk_item nm p q = \<lparr>i_id = JUndefined, i_name = JStr nm, i_price = p, i_quantity = q,
                     i_image = JUndefined\<rparr>"

definition place_request :: "item option list \<Rightarrow> jsval \<Rightarrow> place_req" where
  "place_request its pm =
     \<lparr>body_userId = JStr ''u1'', req_userId = JUndefined, req_user = None,
      body_items = Some its, body_amount = JNum (Fin 250), body_address = JStr ''home'',
      body_paymentMethod = pm\<rparr>"

definition tea :: item where
  "tea = mk_item ''tea'' (JNum (Fin 100)) (JNum (Fin 2))"

definition verify_request :: "string \<Rightarrow> jsval \<Rightarrow> verify_req" where
  "verify_request i s = \<lparr>v_orderId = JStr i, v_success = s, v_update_result = None\<rparr>"

definition status_request :: "string \<Rightarrow> jsval \<Rightarrow> status_req" where
  "status_request i st = \<lparr>s_orderId = JStr i, s_status = st, s_update_result = None\<rparr>"

definition completed_event :: "jsval option \<Rightarrow> jsval \<Rightarrow> event" where
  "completed_event md sid =
     \<lparr>ev_type = JStr ''checkout.session.completed'',
      data_object = Some \<lparr>metadata = md, es_id = sid\<rparr>\<rparr>"

text \<open>A delivery of a signed \<^verbatim>\<open>checkout.session.completed\<close> event, with the store
  answering as given.\<close>

definition completed_delivery :: "jsval option \<Rightarrow> jsval \<Rightarrow> string option \<Rightarrow> delivery" where
  "completed_delivery md sid upd =
     \<lparr>body_event = completed_event md sid, constructEvent = Inr (completed_event md sid),
      find_result = None, update_result = upd\<rparr>"

text \<open>The state after one online order of the user \<^verbatim>\<open>u1\<close>.\<close>

definition w_placed :: world where
  "w_placed = fst (placeOrder sn_example (cfg_fee None) ext_ok (place_request [Some tea] JUndefined) w0)"

text \<open>A delivery whose signature check throws.\<close>

definition forged_delivery :: delivery where
  "forged_delivery =
     \<lparr>body_event = completed_event (Some (JStr ''o1'')) (JStr ''cs_1''),
      constructEvent = Inl ''No signatures found matching the expected signature'',
      find_result = None, update_result = None\<rparr>"

section \<open>Doubles\<close>

lemma floor_numeral_quotient:
  "\<lfloor>(numeral a / numeral b :: rat)\<rfloor> = numeral a div numeral b"
  using floor_divide_of_int_eq [of "numeral a" "numeral b", where ?'a = rat] by simp

lemma ceiling_numeral_quotient:
  "\<lceil>(numeral a / numeral b :: rat)\<rceil> = - (- numeral a div numeral b)"
  using ceiling_divide_eq_div [of "numeral a" "numeral b", where ?'a = rat] by simp

lemma bit_length_0 [simp]: "bit_length 0 = 0"
  by (simp add: bit_length.simps)

lemma bit_length_1 [simp]: "bit_length 1 = 1"
  by (subst bit_length.simps) simp

lemma bit_length_Suc_0 [simp]: "bit_length (Suc 0) = 1"
  by (subst bit_length.simps) simp

lemma bit_length_Bit0 [simp]: "bit_length (numeral (Num.Bit0 n)) = Suc (bit_length (numeral n))"
proof -
  have "(numeral (Num.Bit0 n) :: nat) div 2 = numeral n" by simp
  then show ?thesis by (subst bit_length.simps) simp
qed

lemma bit_length_Bit1 [simp]: "bit_length (numeral (Num.Bit1 n)) = Suc (bit_length (numeral n))"
proof -
  have "(numeral (Num.Bit1 n) :: nat) div 2 = numeral n" by simp
  then show ?thesis by (subst bit_length.simps) simp
qed

text \<open>The rules that evaluate \<open>to_double\<close> on a numeral.\<close>

lemmas ieee_eval = to_double_def float_exponent_def round_half_even_def pow2_def
  floor_numeral_quotient ceiling_numeral_quotient Let_def

text \<open>
  Three products as the language computes them. The double written \<^verbatim>\<open>0.015\<close> lies
  below 0.015, yet its product with 100 rounds to the double 1.5. The product of
  \<open>2\<^bsup>1023\<^esup>\<close> and 100 overflows. The product of 0.125 and 100 is exact.
\<close>

lemma js_mul_rounds:
  "js_mul (Fin (8646911284551352 / 2 ^ 59)) (Fin 100) = Fin (3 / 2)"
  by (simp add: js_mul_def ieee_eval)

lemma js_mul_overflows: "js_mul (Fin (2 ^ 1023)) (Fin 100) = PInf"
  by (simp add: js_mul_def ieee_eval)

lemma js_mul_exact: "js_mul (Fin (1 / 8)) (Fin 100) = Fin (25 / 2)"
  by (simp add: js_mul_def ieee_eval)

text \<open>A positive natural number lies between two powers of 2 given by its length.\<close>

lemma bit_length_bounds:
  "0 < n \<Longrightarrow> 2 ^ (bit_length n - 1) \<le> n \<and> n < 2 ^ bit_length n"
proof (induction n rule: bit_length.induct)
  case (1 n)
  show ?case
  proof (cases "n div 2 = 0")
    case True
    with "1.prems" have "n = 1" by (simp add: div_eq_0_iff)
    then show ?thesis by simp
  next
    case False
    then have pos: "0 < n div 2" by simp
    from "1.prems" have n0: "n \<noteq> 0" by simp
    from "1.IH" [OF n0 pos]
    have lo: "2 ^ (bit_length (n div 2) - 1) \<le> n div 2" and hi: "n div 2 < 2 ^ bit_length (n div 2)"
      by simp_all
    have bl: "bit_length n = Suc (bit_length (n div 2))"
      using n0 by (subst bit_length.simps) simp
    have blpos: "0 < bit_length (n div 2)"
      using pos by (subst bit_length.simps) simp
    have "2 ^ (bit_length n - 1) = 2 * 2 ^ (bit_length (n div 2) - 1)"
      using bl blpos by (cases "bit_length (n div 2)") simp_all
    also have "\<dots> \<le> 2 * (n div 2)" using lo by simp
    also have "\<dots> \<le> n" by simp
    finally have 1: "2 ^ (bit_length n - 1) \<le> n" .
    have "n < 2 * (n div 2) + 2" by presburger
    also have "\<dots> \<le> 2 * 2 ^ bit_length (n div 2)" using hi by simp
    finally have 2: "n < 2 ^ bit_length n" using bl by simp
    from 1 2 show ?thesis by simp
  qed
qed

lemma round_half_even_of_int [simp]: "round_half_even (of_int k) = k"
  by (simp add: round_half_even_def)

text \<open>Every whole number from 0 to below \<open>2\<^bsup>53\<^esup>\<close> is a double.\<close>

lemma to_double_of_nat:
  assumes "n < 2 ^ 53"
  shows "to_double (of_nat n) = Fin (of_nat n)"
proof (cases "n = 0")
  case True
  then show ?thesis by (simp add: to_double_def)
next
  case False
  then have pos: "0 < n" by simp
  define b where "b = bit_length n"
  from bit_length_bounds [OF pos] have lo: "2 ^ (b - 1) \<le> n" and hi: "n < 2 ^ b"
    by (simp_all add: b_def)
  have b1: "1 \<le> b"
    using pos unfolding b_def by (subst bit_length.simps) simp
  have b53: "b \<le> 53"
  proof (rule ccontr)
    assume "\<not> b \<le> 53"
    then have "53 \<le> b - 1" by simp
    then have "(2::nat) ^ 53 \<le> 2 ^ (b - 1)" by (rule power_increasing) simp
    with lo assms show False by simp
  qed
  have a1: "(1::rat) \<le> of_nat n" using pos by simp
  have fe: "float_exponent (of_nat n) = int b - 1"
    using a1 by (simp add: float_exponent_def b_def)
  have q: "max (int b - 1 - 52) (- 1074) = int b - 53" using b1 by simp
  have p2: "pow2 (int b - 53) = 1 / 2 ^ (53 - b)"
  proof (cases "b = 53")
    case True
    then show ?thesis by (simp add: pow2_def)
  next
    case False
    with b53 have "int b - 53 < 0" and "nat (53 - int b) = 53 - b" by simp_all
    then show ?thesis by (simp add: pow2_def)
  qed
  have quot: "(of_nat n :: rat) / pow2 (int b - 53) = of_int (int (n * 2 ^ (53 - b)))"
    by (simp add: p2)
  have v: "of_int (round_half_even ((of_nat n :: rat) / pow2 (int b - 53))) * pow2 (int b - 53) =
           of_nat n"
    unfolding quot round_half_even_of_int by (simp add: p2)
  have "(of_nat n :: rat) < 2 ^ 53"
    using assms by (metis of_nat_less_iff of_nat_numeral of_nat_power)
  also have "\<dots> < 2 ^ 1024" by (rule power_strict_increasing) simp_all
  finally have small: "\<not> (2 ^ 1024 \<le> (of_nat n :: rat))" by simp
  have n0: "(of_nat n :: rat) \<noteq> 0" "(0::rat) < of_nat n" using pos by simp_all
  show ?thesis
    unfolding to_double_def Let_def using n0 small by (simp add: fe q v)
qed

text \<open>\<^verbatim>\<open>Math.round(p * 100)\<close> is \<open>p\<close> times 100 when that is a whole number from 0 to
  below \<open>2\<^bsup>53\<^esup>\<close>.\<close>

lemma Math_round_whole:
  assumes "p * 100 = of_nat k" and "k < 2 ^ 53"
  shows "Math_round (js_mul (Fin p) (Fin 100)) = Fin (p * 100)"
proof -
  have "\<lfloor>(of_int (int k) :: rat) + 1 / 2\<rfloor> = int k" by linarith
  then have "Math_round (Fin (of_nat k)) = Fin (of_nat k)" by simp
  with to_double_of_nat [OF assms(2)] assms(1) show ?thesis by (simp add: js_mul_def)
qed

section \<open>Evaluation of concrete requests\<close>

lemmas example_defs = sn_example_def cfg_fee_def ext_ok_def w0_def mk_item_def place_request_def
  tea_def verify_request_def status_request_def completed_event_def completed_delivery_def
  w_placed_def forged_delivery_def

lemmas handler_defs = verifyOrder_def updateStatus_def stripeWebhookHandler_def verified_event_def
  webhookSecret_set_def confirm_session_def session_orderId_def mark_paid_def run_def

lemma to_double_numeral:
  "(numeral n :: nat) < 2 ^ 53 \<Longrightarrow> to_double (numeral n) = Fin (numeral n)"
  using to_double_of_nat [of "numeral n"] by simp

lemmas placeOrder_defs = placeOrder_def resolve_userId_def js_or_def num_or_def normalize_item_def
  save_and_pay_def new_order_def checkout_def session_request_def build_line_items_def
  delivery_fee_def env_value_def to_line_item_def delivery_line_def frontend_url_def js_mul_def
  caught_def respond_def Let_def to_double_numeral floor_numeral_quotient

section \<open>Rejection of invalid prices\<close>

lemma normalize_item_invalid:
  "invalid_price sn it \<Longrightarrow>
   normalize_item sn it = Inl (Invalid_price (js_or (i_name it) (i_id it)))"
  by (simp add: invalid_price_def normalize_item_def Let_def)

lemma normalize_item_valid:
  "\<not> invalid_price sn it \<Longrightarrow> \<exists>n. normalize_item sn it = Inr n"
  by (simp add: invalid_price_def normalize_item_def Let_def)

text \<open>The exception of \<^verbatim>\<open>items.map\<close> is the one of the first element that throws.\<close>

lemma normalize_items_find:
  "find (throws sn) its = Some x \<Longrightarrow>
   normalize_items sn its =
     Inl (case x of None \<Rightarrow> TypeError | Some b \<Rightarrow> Invalid_price (js_or (i_name b) (i_id b)))"
proof (induction its)
  case Nil
  then show ?case by simp
next
  case (Cons a its)
  show ?case
  proof (cases a)
    case None
    with Cons.prems show ?thesis by simp
  next
    case (Some it)
    show ?thesis
    proof (cases "invalid_price sn it")
      case True
      with Some Cons.prems show ?thesis
        by (auto simp: normalize_item_invalid)
    next
      case False
      then obtain n where n: "normalize_item sn it = Inr n"
        using normalize_item_valid by blast
      from False Some Cons.prems have "find (throws sn) its = Some x"
        by simp
      then show ?thesis using Cons.IH Some n by simp
    qed
  qed
qed

lemma find_throws_exists:
  "Some it \<in> set its \<Longrightarrow> invalid_price sn it \<Longrightarrow> \<exists>x. find (throws sn) its = Some x"
  by (cases "find (throws sn) its") (auto simp: find_None_iff)

lemma find_holds: "find P xs = Some y \<Longrightarrow> P y"
  by (induction xs) (auto split: if_splits)

text \<open>
  Claim C1, as the code has it. When the user identifier resolves and \<^verbatim>\<open>items\<close> is an
  array holding an item whose price, converted by \<^verbatim>\<open>Number\<close>, is \<^verbatim>\<open>NaN\<close> or negative,
  \<^verbatim>\<open>placeOrder\<close> leaves the order store (and the rest of the state) unchanged and answers
  with \<^verbatim>\<open>success: false\<close> and a message. When the first element on which the
  normalization throws is an item, that is, when no \<^verbatim>\<open>null\<close> element comes before the
  first item with such a price, the message is \<^verbatim>\<open>Invalid price for item\<close> followed by the
  name (or else the identifier) of that item.
\<close>

theorem placeOrder_invalid_price:
  assumes uid: "truthy (resolve_userId r)"
    and arr: "body_items r = Some its"
    and bad: "Some it \<in> set its" "invalid_price sn it"
  shows "fst (placeOrder sn cfg ext r w) = w \<and>
         (\<exists>m. content (snd (placeOrder sn cfg ext r w)) = Message False m) \<and>
         (\<forall>b. find (throws sn) its = Some (Some b) \<longrightarrow>
              invalid_price sn b \<and>
              content (snd (placeOrder sn cfg ext r w)) =
                Message False (Invalid_price_for_item (js_or (i_name b) (i_id b))))"
proof -
  from bad obtain x where x: "find (throws sn) its = Some x"
    using find_throws_exists by blast
  from bad have ne: "its \<noteq> []" by auto
  let ?e = "case x of None \<Rightarrow> TypeError | Some b \<Rightarrow> Invalid_price (js_or (i_name b) (i_id b))"
  have po: "placeOrder sn cfg ext r w = (w, caught ?e)"
    using uid arr ne normalize_items_find [OF x] by (simp add: placeOrder_def Let_def)
  have inv: "invalid_price sn b" if "find (throws sn) its = Some (Some b)" for b
  proof -
    from that have "throws sn (Some b)" by (rule find_holds)
    then show ?thesis by simp
  qed
  from po x inv show ?thesis by (auto simp: caught_def respond_def)
qed

text \<open>The theorem at a request of two items, the second priced \<open>-5\<close>, and at a request
  whose invalid item is followed by a \<^verbatim>\<open>null\<close> element.\<close>

theorem placeOrder_invalid_price_witness:
  "truthy (resolve_userId (place_request [Some (mk_item ''tea'' (JNum (Fin 100)) JUndefined),
                                          Some (mk_item ''bun'' (JNum (Fin (- 5))) JUndefined)] JUndefined)) \<and>
   invalid_price sn_example (mk_item ''bun'' (JNum (Fin (- 5))) JUndefined) \<and>
   find (throws sn_example) [Some (mk_item ''tea'' (JNum (Fin 100)) JUndefined),
                             Some (mk_item ''bun'' (JNum (Fin (- 5))) JUndefined)] =
     Some (Some (mk_item ''bun'' (JNum (Fin (- 5))) JUndefined)) \<and>
   fst (placeOrder sn_example (cfg_fee None) ext_ok
     (place_request [Some (mk_item ''tea'' (JNum (Fin 100)) JUndefined),
                     Some (mk_item ''bun'' (JNum (Fin (- 5))) JUndefined)] JUndefined) w0) = w0 \<and>
   content (snd (placeOrder sn_example (cfg_fee None) ext_ok
     (place_request [Some (mk_item ''tea'' (JNum (Fin 100)) JUndefined),
                     Some (mk_item ''bun'' (JNum (Fin (- 5))) JUndefined)] JUndefined) w0)) =
     Message False (Invalid_price_for_item (JStr ''bun'')) \<and>
   fst (placeOrder sn_example (cfg_fee None) ext_ok
     (place_request [Some (mk_item ''bun'' (JNum (Fin (- 5))) JUndefined), None] JUndefined) w0) = w0 \<and>
   content (snd (placeOrder sn_example (cfg_fee None) ext_ok
     (place_request [Some (mk_item ''bun'' (JNum (Fin (- 5))) JUndefined), None] JUndefined) w0)) =
     Message False (Invalid_price_for_item (JStr ''bun''))"
  using placeOrder_invalid_price [of
     "place_request [Some (mk_item ''tea'' (JNum (Fin 100)) JUndefined),
                     Some (mk_item ''bun'' (JNum (Fin (- 5))) JUndefined)] JUndefined"
     "[Some (mk_item ''tea'' (JNum (Fin 100)) JUndefined),
       Some (mk_item ''bun'' (JNum (Fin (- 5))) JUndefined)]"
     "mk_item ''bun'' (JNum (Fin (- 5))) JUndefined" sn_example "cfg_fee None" ext_ok w0]
    placeOrder_invalid_price [of
     "place_request [Some (mk_item ''bun'' (JNum (Fin (- 5))) JUndefined), None] JUndefined"
     "[Some (mk_item ''bun'' (JNum (Fin (- 5))) JUndefined), None]"
     "mk_item ''bun'' (JNum (Fin (- 5))) JUndefined" sn_example "cfg_fee None" ext_ok w0]
  by (simp add: example_defs resolve_userId_def js_or_def invalid_price_def)

text \<open>
  Claim C1 as written fails on prices that are not numbers but convert to one:
  \<^verbatim>\<open>Number(null)\<close> is 0 and \<^verbatim>\<open>Number(true)\<close> is 1. The request below, whose two items
  are priced \<^verbatim>\<open>null\<close> and \<^verbatim>\<open>true\<close>, is answered with status 201 and its order is stored
  with the prices 0 and 1.
\<close>

theorem placeOrder_null_price_counterexample:
  "code (snd (placeOrder sn_example (cfg_fee None) ext_ok
     (place_request [Some (mk_item ''tea'' JNull JUndefined),
                     Some (mk_item ''bun'' (JBool True) JUndefined)] (JStr ''cod'')) w0)) = 201 \<and>
   orders (fst (placeOrder sn_example (cfg_fee None) ext_ok
     (place_request [Some (mk_item ''tea'' JNull JUndefined),
                     Some (mk_item ''bun'' (JBool True) JUndefined)] (JStr ''cod'')) w0)) \<noteq> orders w0 \<and>
   map (map n_price \<circ> items) (orders (fst (placeOrder sn_example (cfg_fee None) ext_ok
     (place_request [Some (mk_item ''tea'' JNull JUndefined),
                     Some (mk_item ''bun'' (JBool True) JUndefined)] (JStr ''cod'')) w0))) =
     [[Fin 0, Fin 1]]"
  by (simp add: example_defs placeOrder_defs)

section \<open>The order invariant\<close>

lemma findByIdAndUpdate_list_all:
  "list_all P ds \<Longrightarrow> (\<And>d. P d \<Longrightarrow> P (f d)) \<Longrightarrow> list_all P (findByIdAndUpdate v f ds)"
  by (induction ds) auto

lemma paid_is_confirmed_mark_paid: "paid_is_confirmed (mark_paid d)"
  by (simp add: paid_is_confirmed_def mark_paid_def)

lemma paid_is_confirmed_session:
  "paid_is_confirmed d \<Longrightarrow> paid_is_confirmed (d\<lparr>stripeSessionId := v\<rparr>)"
  by (simp add: paid_is_confirmed_def)

lemma paid_is_confirmed_status:
  "paid_is_confirmed (d\<lparr>status := JStr ''confirmed''\<rparr>)"
  by (simp add: paid_is_confirmed_def)

lemma paid_is_confirmed_new_order: "paid_is_confirmed (new_order ext r uid ns pm)"
  by (simp add: paid_is_confirmed_def new_order_def)

lemma checkout_invariant:
  "list_all paid_is_confirmed (orders w) \<Longrightarrow>
   list_all paid_is_confirmed (orders (fst (checkout sn cfg ext ns d w)))"
  by (auto simp: checkout_def Let_def findByIdAndUpdate_list_all paid_is_confirmed_session
      split: sum.splits option.splits)

lemma save_and_pay_invariant:
  assumes "list_all paid_is_confirmed (orders w)" and "paid_is_confirmed d"
  shows "list_all paid_is_confirmed (orders (fst (save_and_pay sn cfg ext uid ns d w)))"
proof (cases "save_result ext")
  case (Some m)
  with assms show ?thesis by (simp add: save_and_pay_def)
next
  case None
  let ?w1 = "w\<lparr>orders := orders w @ [d]\<rparr>"
  let ?w2 = "if cart_clear_fails ext then ?w1 else ?w1\<lparr>carts := clear_cart uid (carts ?w1)\<rparr>"
  from assms have "list_all paid_is_confirmed (orders ?w2)" by simp
  then have "list_all paid_is_confirmed (orders (fst (checkout sn cfg ext ns d ?w2)))"
    by (rule checkout_invariant)
  with None assms show ?thesis by (simp add: save_and_pay_def Let_def)
qed

lemma placeOrder_invariant:
  assumes "payment_implies_confirmed w"
  shows "payment_implies_confirmed (fst (placeOrder sn cfg ext r w))"
  using assms
  by (auto simp: placeOrder_def Let_def payment_implies_confirmed_def
      save_and_pay_invariant paid_is_confirmed_new_order split: option.splits sum.splits)

lemma verifyOrder_invariant:
  assumes "payment_implies_confirmed w" and "v_success r = JStr ''true'' \<or> v_success r = JBool True"
  shows "payment_implies_confirmed (fst (verifyOrder r w))"
  using assms
  by (auto simp: verifyOrder_def payment_implies_confirmed_def findByIdAndUpdate_list_all
      paid_is_confirmed_mark_paid split: option.splits)

lemma confirm_session_invariant:
  "list_all paid_is_confirmed ds \<Longrightarrow> confirm_session dl session ds = Inr ds' \<Longrightarrow>
   list_all paid_is_confirmed ds'"
  by (auto simp: confirm_session_def Let_def findByIdAndUpdate_list_all
      paid_is_confirmed_mark_paid split: option.splits if_splits)

lemma stripeWebhookHandler_invariant:
  assumes "payment_implies_confirmed w"
  shows "payment_implies_confirmed (fst (stripeWebhookHandler cfg dl w))"
  using assms
  by (auto simp: stripeWebhookHandler_def payment_implies_confirmed_def
      dest: confirm_session_invariant split: sum.splits option.splits)

lemma updateStatus_invariant:
  assumes "payment_implies_confirmed w" and "s_status r = JStr ''confirmed''"
  shows "payment_implies_confirmed (fst (updateStatus r w))"
  using assms
  by (auto simp: updateStatus_def payment_implies_confirmed_def findByIdAndUpdate_list_all
      paid_is_confirmed_status split: option.splits)

lemma handle_invariant:
  "payment_implies_confirmed w \<Longrightarrow> confirming c \<Longrightarrow> payment_implies_confirmed (handle sn cfg w c)"
  by (cases c)
     (simp_all add: placeOrder_invariant verifyOrder_invariant stripeWebhookHandler_invariant
        updateStatus_invariant)

text \<open>
  Claim C2, as the code has it. The invariant (a paid order is confirmed) is kept by every
  \<^verbatim>\<open>placeOrder\<close>, by every \<^verbatim>\<open>stripeWebhookHandler\<close>, by \<^verbatim>\<open>verifyOrder\<close> with
  \<^verbatim>\<open>success\<close> equal to \<^verbatim>\<open>true\<close> or \<^verbatim>\<open>'true'\<close>, and by \<^verbatim>\<open>updateStatus\<close> with the status
  \<^verbatim>\<open>'confirmed'\<close>: from a state that satisfies it, any sequence of such calls, whatever
  the store and the gateway answer, ends in a state that satisfies it.
\<close>

theorem confirming_calls_keep_invariant:
  assumes "payment_implies_confirmed w" and "list_all confirming cs"
  shows "payment_implies_confirmed (run sn cfg w cs)"
  using assms unfolding run_def
  by (induction cs arbitrary: w) (simp_all add: handle_invariant)

text \<open>The theorem on an order that is placed, confirmed by the webhook and verified.\<close>

theorem confirming_calls_keep_invariant_witness:
  "payment_implies_confirmed w0 \<and>
   list_all confirming
     [PlaceOrder ext_ok (place_request [Some tea] JUndefined),
      Webhook (completed_delivery (Some (JStr ''o1'')) (JStr ''cs_1'') None),
      VerifyOrder (verify_request ''o1'' (JBool True))] \<and>
   payment_implies_confirmed
     (run sn_example (cfg_fee None) w0
        [PlaceOrder ext_ok (place_request [Some tea] JUndefined),
         Webhook (completed_delivery (Some (JStr ''o1'')) (JStr ''cs_1'') None),
         VerifyOrder (verify_request ''o1'' (JBool True))]) \<and>
   map (\<lambda>d. (payment d, status d))
     (orders (run sn_example (cfg_fee None) w0
        [PlaceOrder ext_ok (place_request [Some tea] JUndefined),
         Webhook (completed_delivery (Some (JStr ''o1'')) (JStr ''cs_1'') None),
         VerifyOrder (verify_request ''o1'' (JBool True))])) = [(True, JStr ''confirmed'')]"
  using confirming_calls_keep_invariant [of w0
     "[PlaceOrder ext_ok (place_request [Some tea] JUndefined),
       Webhook (completed_delivery (Some (JStr ''o1'')) (JStr ''cs_1'') None),
       VerifyOrder (verify_request ''o1'' (JBool True))]" sn_example "cfg_fee None"]
  by (simp add: example_defs placeOrder_defs handler_defs payment_implies_confirmed_def)

text \<open>
  Claim C2 as written fails: \<^verbatim>\<open>updateStatus\<close> overwrites the status of a paid order
  with any string, and \<^verbatim>\<open>verifyOrder\<close> with a false \<^verbatim>\<open>success\<close> sets it to
  \<^verbatim>\<open>'cancelled'\<close>; neither touches \<^verbatim>\<open>payment\<close>. Both runs start from an empty order
  collection.
\<close>

theorem invariant_broken_counterexample:
  "payment_implies_confirmed w0 \<and>
   \<not> payment_implies_confirmed
       (run sn_example (cfg_fee None) w0
          [PlaceOrder ext_ok (place_request [Some tea] (JStr ''cod'')),
           VerifyOrder (verify_request ''o1'' (JBool True)),
           UpdateStatus (status_request ''o1'' (JStr ''Out for delivery''))]) \<and>
   \<not> payment_implies_confirmed
       (run sn_example (cfg_fee None) w0
          [PlaceOrder ext_ok (place_request [Some tea] (JStr ''cod'')),
           VerifyOrder (verify_request ''o1'' (JBool True)),
           VerifyOrder (verify_request ''o1'' (JBool False))]) \<and>
   map (\<lambda>d. (payment d, status d))
     (orders (run sn_example (cfg_fee None) w0
          [PlaceOrder ext_ok (place_request [Some tea] (JStr ''cod'')),
           VerifyOrder (verify_request ''o1'' (JBool True)),
           UpdateStatus (status_request ''o1'' (JStr ''Out for delivery''))])) =
     [(True, JStr ''Out for delivery'')] \<and>
   map (\<lambda>d. (payment d, status d))
     (orders (run sn_example (cfg_fee None) w0
          [PlaceOrder ext_ok (place_request [Some tea] (JStr ''cod'')),
           VerifyOrder (verify_request ''o1'' (JBool True)),
           VerifyOrder (verify_request ''o1'' (JBool False))])) =
     [(True, JStr ''cancelled'')]"
  by (simp add: example_defs placeOrder_defs handler_defs payment_implies_confirmed_def
      paid_is_confirmed_def)

section \<open>Gateway line items\<close>

lemma checkout_gateway:
  "gateway (fst (checkout sn cfg ext ns d w)) = gateway w @ [session_request sn cfg ns d]"
  by (simp add: checkout_def Let_def split: sum.splits option.splits)

lemma save_and_pay_gateway:
  "gateway (fst (save_and_pay sn cfg ext uid ns d w)) = gateway w \<or>
   gateway (fst (save_and_pay sn cfg ext uid ns d w)) = gateway w @ [session_request sn cfg ns d]"
  by (simp add: save_and_pay_def Let_def checkout_gateway split: option.splits)

lemma save_and_pay_session_url:
  "snd (save_and_pay sn cfg ext uid ns d w) = respond 200 (Session_url u) \<Longrightarrow>
   gateway (fst (save_and_pay sn cfg ext uid ns d w)) = gateway w @ [session_request sn cfg ns d]"
  by (auto simp: save_and_pay_def Let_def checkout_gateway caught_def respond_def
      split: option.splits if_splits)

text \<open>A call that reaches the gateway sends one request, built from the normalized items.\<close>

lemma placeOrder_gateway:
  assumes "gateway (fst (placeOrder sn cfg ext r w)) \<noteq> gateway w \<or>
           snd (placeOrder sn cfg ext r w) = respond 200 (Session_url u)"
  shows "\<exists>its ns d. body_items r = Some its \<and> normalize_items sn its = Inr ns \<and>
           gateway (fst (placeOrder sn cfg ext r w)) = gateway w @ [session_request sn cfg ns d]"
proof (cases "truthy (resolve_userId r)")
  case False
  with assms show ?thesis by (auto simp: placeOrder_def Let_def respond_def)
next
  case uid: True
  show ?thesis
  proof (cases "body_items r")
    case None
    with uid assms show ?thesis by (auto simp: placeOrder_def Let_def respond_def)
  next
    case (Some its)
    show ?thesis
    proof (cases "normalize_items sn its")
      case (Inl e)
      with uid Some assms show ?thesis
        by (auto simp: placeOrder_def Let_def respond_def caught_def split: if_splits)
    next
      case (Inr ns)
      have ne: "its \<noteq> []"
        using uid Some assms by (auto simp: placeOrder_def Let_def respond_def split: if_splits)
      let ?pm = "if body_paymentMethod r = JUndefined then JStr ''stripe'' else body_paymentMethod r"
      let ?d = "new_order ext r (resolve_userId r) ns ?pm"
      have po: "placeOrder sn cfg ext r w = save_and_pay sn cfg ext (resolve_userId r) ns ?d w"
        using uid Some Inr ne by (simp add: placeOrder_def Let_def)
      have "gateway (fst (placeOrder sn cfg ext r w)) = gateway w @ [session_request sn cfg ns ?d]"
        using assms save_and_pay_gateway [of sn cfg ext "resolve_userId r" ns ?d w]
          save_and_pay_session_url [of sn cfg ext "resolve_userId r" ns ?d w u]
        unfolding po by blast
      with Some Inr show ?thesis by blast
    qed
  qed
qed

text \<open>What \<^verbatim>\<open>items.map\<close> returns when no element throws.\<close>

lemma normalize_items_Inr:
  "normalize_items sn its = Inr ns \<Longrightarrow>
   \<exists>objs. its = map Some objs \<and>
     map n_price ns = map (\<lambda>it. Number sn (i_price it)) objs \<and>
     map n_quantity ns = map (\<lambda>it. num_or (Number sn (i_quantity it)) (Fin 1)) objs"
proof (induction its arbitrary: ns)
  case Nil
  then show ?case by simp
next
  case (Cons a its)
  from Cons.prems obtain it where a: "a = Some it" by (cases a) auto
  from Cons.prems a obtain n where n: "normalize_item sn it = Inr n"
    by (cases "normalize_item sn it") auto
  from Cons.prems a n obtain ms where ms: "normalize_items sn its = Inr ms" and ns: "ns = n # ms"
    by (cases "normalize_items sn its") auto
  from Cons.IH [OF ms] obtain objs where objs: "its = map Some objs"
    "map n_price ms = map (\<lambda>it. Number sn (i_price it)) objs"
    "map n_quantity ms = map (\<lambda>it. num_or (Number sn (i_quantity it)) (Fin 1)) objs"
    by blast
  from n have "n_price n = Number sn (i_price it)"
    and "n_quantity n = num_or (Number sn (i_quantity it)) (Fin 1)"
    by (auto simp: normalize_item_def Let_def split: if_splits)
  with a ns objs show ?case
    by (intro exI [of _ "it # objs"]) simp
qed

lemma delivery_fee_cases:
  "delivery_fee sn cfg =
     (if Number sn (env_value (DELIVERY_FEE cfg)) = NaN \<or>
         Number sn (env_value (DELIVERY_FEE cfg)) = Fin 0
      then Fin 80 else Number sn (env_value (DELIVERY_FEE cfg)))"
  by (cases "Number sn (env_value (DELIVERY_FEE cfg))") (simp_all add: delivery_fee_def num_or_def)

text \<open>\<^verbatim>\<open>Math.round\<close> gives the rounded amount, and the rounded amount of a whole number
  is that number.\<close>

lemma rounded_amount_Math_round: "rounded_amount x (Math_round x)"
proof (cases x)
  case (Fin a)
  have "of_int \<lfloor>a + 1 / 2\<rfloor> - 1 / 2 \<le> a" by linarith
  moreover have "a < of_int \<lfloor>a + 1 / 2\<rfloor> + 1 / 2" by linarith
  ultimately show ?thesis using Fin by (simp add: rounded_amount_def whole_def)
qed (simp_all add: rounded_amount_def)

lemma rounded_amount_whole:
  assumes "rounded_amount (Fin (of_nat k)) u"
  shows "u = Fin (of_nat k)"
proof -
  from assms obtain v where u: "u = Fin v" and w: "whole v"
    and lo: "v - 1 / 2 \<le> of_nat k" and hi: "of_nat k < v + 1 / 2"
    by (cases u) (simp_all add: rounded_amount_def)
  from w have v: "v = of_int \<lfloor>v\<rfloor>" unfolding whole_def by (rule sym)
  have "\<lfloor>v\<rfloor> = int k"
  proof -
    from lo hi v have "of_int \<lfloor>v\<rfloor> - 1 / 2 \<le> (of_int (int k) :: rat)"
      and "(of_int (int k) :: rat) < of_int \<lfloor>v\<rfloor> + 1 / 2" by simp_all
    then show ?thesis by linarith
  qed
  with v have "v = of_nat k" by simp
  with u show ?thesis by simp
qed

lemma item_lines:
  assumes "map n_price ns = map (\<lambda>it. Number sn (i_price it)) objs"
    and "map n_quantity ns = map (\<lambda>it. num_or (Number sn (i_quantity it)) (Fin 1)) objs"
  shows "list_all2 (item_line sn) objs (map to_line_item ns)"
proof -
  have len: "length objs = length ns" using assms(1) map_eq_imp_length_eq by fastforce
  have "item_line sn (objs ! i) (to_line_item (ns ! i))" if "i < length ns" for i
  proof -
    from that len assms have "n_price (ns ! i) = Number sn (i_price (objs ! i))"
      and "n_quantity (ns ! i) = num_or (Number sn (i_quantity (objs ! i))) (Fin 1)"
      by (metis nth_map)+
    then show ?thesis
      by (simp add: item_line_def to_line_item_def rounded_amount_Math_round)
  qed
  with len show ?thesis by (simp add: list_all2_conv_all_nth)
qed

lemma delivery_line_for_delivery_line: "delivery_line_for fee (delivery_line fee)"
  by (simp add: delivery_line_for_def delivery_line_def rounded_amount_Math_round)

text \<open>
  Claim C3, as the code has it. A call answered with a session URL has sent the gateway
  one request. Its line items begin with one per item of the request, in order, each
  with the normalized quantity and with the unit amount \<^verbatim>\<open>Math.round(price * 100)\<close>: the
  double product of the converted price and 100, rounded to the nearest whole number. When
  the configured delivery fee converts to a number greater than 0, exactly one more line
  follows, the delivery charge with quantity 1 and unit amount \<^verbatim>\<open>Math.round(fee * 100)\<close>;
  when it is unset or converts to \<^verbatim>\<open>NaN\<close> the same line follows for the fee 80; when it
  converts to a negative number no line follows. The unit amount is the price times 100
  whenever that is a whole number from 0 to below \<open>2\<^bsup>53\<^esup>\<close>.
\<close>

theorem stripe_line_items:
  assumes ok: "snd (placeOrder sn cfg ext r w) = respond 200 (Session_url u)"
  shows "\<exists>objs rq. body_items r = Some (map Some objs) \<and>
           gateway (fst (placeOrder sn cfg ext r w)) = gateway w @ [rq] \<and>
           list_all2 (item_line sn) objs (take (length objs) (line_items rq)) \<and>
           (js_lt (Fin 0) (Number sn (env_value (DELIVERY_FEE cfg))) \<longrightarrow>
              (\<exists>l. drop (length objs) (line_items rq) = [l] \<and>
                   delivery_line_for (Number sn (env_value (DELIVERY_FEE cfg))) l)) \<and>
           (Number sn (env_value (DELIVERY_FEE cfg)) = NaN \<longrightarrow>
              (\<exists>l. drop (length objs) (line_items rq) = [l] \<and> delivery_line_for (Fin 80) l)) \<and>
           (js_lt (Number sn (env_value (DELIVERY_FEE cfg))) (Fin 0) \<longrightarrow>
              drop (length objs) (line_items rq) = []) \<and>
           (\<forall>p k a. p * 100 = of_nat k \<and> k < 2 ^ 53 \<and>
                     rounded_amount (js_mul (Fin p) (Fin 100)) a \<longrightarrow> a = Fin (p * 100))"
proof -
  from ok obtain its ns d where its: "body_items r = Some its"
    and ns: "normalize_items sn its = Inr ns"
    and gw: "gateway (fst (placeOrder sn cfg ext r w)) = gateway w @ [session_request sn cfg ns d]"
    using placeOrder_gateway [of sn cfg ext r w u] by blast
  from normalize_items_Inr [OF ns] obtain objs where objs: "its = map Some objs"
    "map n_price ns = map (\<lambda>it. Number sn (i_price it)) objs"
    "map n_quantity ns = map (\<lambda>it. num_or (Number sn (i_quantity it)) (Fin 1)) objs"
    by blast
  have len: "length objs = length ns" using objs(2) map_eq_imp_length_eq by fastforce
  let ?c = "Number sn (env_value (DELIVERY_FEE cfg))"
  let ?rq = "session_request sn cfg ns d"
  let ?rest = "if js_lt (Fin 0) (delivery_fee sn cfg) then [delivery_line (delivery_fee sn cfg)] else []"
  have li: "line_items ?rq = map to_line_item ns @ ?rest"
    by (simp add: session_request_def build_line_items_def Let_def)
  have tk: "take (length objs) (line_items ?rq) = map to_line_item ns"
    and dr: "drop (length objs) (line_items ?rq) = ?rest"
    unfolding li using len by simp_all
  have 1: "list_all2 (item_line sn) objs (take (length objs) (line_items ?rq))"
    unfolding tk using objs(2,3) by (rule item_lines)
  have 2: "\<exists>l. drop (length objs) (line_items ?rq) = [l] \<and> delivery_line_for ?c l"
    if "js_lt (Fin 0) ?c"
  proof -
    from that have "delivery_fee sn cfg = ?c" by (auto simp: delivery_fee_cases)
    with that show ?thesis unfolding dr by (simp add: delivery_line_for_delivery_line)
  qed
  have 3: "\<exists>l. drop (length objs) (line_items ?rq) = [l] \<and> delivery_line_for (Fin 80) l"
    if "?c = NaN"
  proof -
    from that have "delivery_fee sn cfg = Fin 80" by (simp add: delivery_fee_cases)
    then show ?thesis unfolding dr by (simp add: delivery_line_for_delivery_line)
  qed
  have 4: "drop (length objs) (line_items ?rq) = []" if "js_lt ?c (Fin 0)"
  proof -
    from that have "delivery_fee sn cfg = ?c" by (auto simp: delivery_fee_cases)
    moreover from that have "\<not> js_lt (Fin 0) ?c" by (cases ?c) simp_all
    ultimately show ?thesis unfolding dr by simp
  qed
  have 5: "a = Fin (p * 100)"
    if "p * 100 = of_nat k \<and> k < 2 ^ 53 \<and> rounded_amount (js_mul (Fin p) (Fin 100)) a" for p k a
  proof -
    from that to_double_of_nat [of k] have "js_mul (Fin p) (Fin 100) = Fin (of_nat k)"
      by (simp add: js_mul_def)
    with that rounded_amount_whole [of k a] show ?thesis by simp
  qed
  from its objs(1) gw 1 2 3 4 5 show ?thesis by blast
qed

text \<open>The theorem on the example of the specification: prices 100 and 50, quantities 2
  and 1, delivery fee 80.\<close>

theorem stripe_line_items_witness:
  "snd (placeOrder sn_example (cfg_fee (Some ''80'')) ext_ok
          (place_request [Some (mk_item ''tea'' (JNum (Fin 100)) (JNum (Fin 2))),
                          Some (mk_item ''bun'' (JNum (Fin 50)) (JNum (Fin 1)))] JUndefined) w0) =
     respond 200 (Session_url (JStr ''https://pay'')) \<and>
   map (\<lambda>rq. map (\<lambda>l. (unit_amount l, li_quantity l)) (line_items rq))
     (gateway (fst (placeOrder sn_example (cfg_fee (Some ''80'')) ext_ok
          (place_request [Some (mk_item ''tea'' (JNum (Fin 100)) (JNum (Fin 2))),
                          Some (mk_item ''bun'' (JNum (Fin 50)) (JNum (Fin 1)))] JUndefined) w0))) =
     [[(Fin 10000, Fin 2), (Fin 5000, Fin 1), (Fin 8000, Fin 1)]]"
  using stripe_line_items [of sn_example "cfg_fee (Some ''80'')" ext_ok
          "place_request [Some (mk_item ''tea'' (JNum (Fin 100)) (JNum (Fin 2))),
                          Some (mk_item ''bun'' (JNum (Fin 50)) (JNum (Fin 1)))] JUndefined" w0
          "JStr ''https://pay''"]
  by (simp add: example_defs placeOrder_defs)

text \<open>
  Claim C3 as written fails on a price whose hundredfold is not a whole number: for one
  item priced 0.125 the product with 100 is exactly 12.5, and the unit amount sent is 13.
\<close>

theorem stripe_line_items_counterexample:
  "snd (placeOrder sn_example (cfg_fee (Some ''80'')) ext_ok
          (place_request [Some (mk_item ''tea'' (JNum (Fin (1 / 8))) (JNum (Fin 1)))] JUndefined) w0) =
     respond 200 (Session_url (JStr ''https://pay'')) \<and>
   map (\<lambda>rq. map unit_amount (line_items rq))
     (gateway (fst (placeOrder sn_example (cfg_fee (Some ''80'')) ext_ok
          (place_request [Some (mk_item ''tea'' (JNum (Fin (1 / 8))) (JNum (Fin 1)))] JUndefined) w0))) =
     [[Fin 13, Fin 8000]] \<and>
   js_mul (Fin (1 / 8)) (Fin 100) = Fin (25 / 2)"
  by (simp add: example_defs placeOrder_defs ieee_eval)

section \<open>The delivery fee\<close>

text \<open>
  Claim C10. When the configured delivery fee converts to 0 or to \<^verbatim>\<open>NaN\<close> (an unset
  variable converts to \<^verbatim>\<open>NaN\<close>), every call that reaches the gateway sends a request
  whose last line item is the delivery charge, with unit amount 8000 and quantity 1,
  after one line per item.
\<close>

theorem zero_fee_still_charged:
  assumes fee: "Number sn (env_value (DELIVERY_FEE cfg)) = NaN \<or>
                Number sn (env_value (DELIVERY_FEE cfg)) = Fin 0"
    and contacted: "gateway (fst (placeOrder sn cfg ext r w)) \<noteq> gateway w"
  shows "\<exists>its rq. body_items r = Some its \<and>
           gateway (fst (placeOrder sn cfg ext r w)) = gateway w @ [rq] \<and>
           length (line_items rq) = Suc (length its) \<and>
           last (line_items rq) =
             \<lparr>currency = ''lkr'', product_name = JStr ''Delivery Charges'',
              unit_amount = Fin 8000, li_quantity = Fin 1\<rparr>"
proof -
  from contacted obtain its ns d where its: "body_items r = Some its"
    and ns: "normalize_items sn its = Inr ns"
    and gw: "gateway (fst (placeOrder sn cfg ext r w)) = gateway w @ [session_request sn cfg ns d]"
    using placeOrder_gateway [of sn cfg ext r w JUndefined] by blast
  from normalize_items_Inr [OF ns] obtain objs where "its = map Some objs"
    and "map n_price ns = map (\<lambda>it. Number sn (i_price it)) objs"
    by blast
  then have len: "length ns = length its"
    using map_eq_imp_length_eq by fastforce
  from fee have f80: "delivery_fee sn cfg = Fin 80"
    by (simp add: delivery_fee_cases)
  have "Math_round (js_mul (Fin 80) (Fin 100)) = Fin 8000"
    using Math_round_whole [of 80 8000] by simp
  with f80 len have "length (line_items (session_request sn cfg ns d)) = Suc (length its) \<and>
      last (line_items (session_request sn cfg ns d)) =
        \<lparr>currency = ''lkr'', product_name = JStr ''Delivery Charges'',
         unit_amount = Fin 8000, li_quantity = Fin 1\<rparr>"
    by (simp add: session_request_def build_line_items_def Let_def delivery_line_def)
  with its gw show ?thesis by blast
qed

text \<open>The theorem with \<^verbatim>\<open>DELIVERY_FEE=0\<close> and with the variable unset.\<close>

theorem zero_fee_still_charged_witness:
  "Number sn_example (env_value (DELIVERY_FEE (cfg_fee (Some ''0'')))) = Fin 0 \<and>
   map (\<lambda>rq. map (\<lambda>l. (product_name l, unit_amount l, li_quantity l)) (line_items rq))
     (gateway (fst (placeOrder sn_example (cfg_fee (Some ''0'')) ext_ok
                      (place_request [Some tea] (JStr ''stripe'')) w0))) =
     [[(JStr ''tea'', Fin 10000, Fin 2), (JStr ''Delivery Charges'', Fin 8000, Fin 1)]] \<and>
   Number sn_example (env_value (DELIVERY_FEE (cfg_fee None))) = NaN \<and>
   map (\<lambda>rq. map (\<lambda>l. (product_name l, unit_amount l, li_quantity l)) (line_items rq))
     (gateway (fst (placeOrder sn_example (cfg_fee None) ext_ok
                      (place_request [Some tea] (JStr ''stripe'')) w0))) =
     [[(JStr ''tea'', Fin 10000, Fin 2), (JStr ''Delivery Charges'', Fin 8000, Fin 1)]]"
  using zero_fee_still_charged [of sn_example "cfg_fee (Some ''0'')" ext_ok
          "place_request [Some tea] (JStr ''stripe'')" w0]
        zero_fee_still_charged [of sn_example "cfg_fee None" ext_ok
          "place_request [Some tea] (JStr ''stripe'')" w0]
  by (simp add: example_defs placeOrder_defs)

section \<open>Orders without online payment\<close>

lemma persists_save_and_pay:
  assumes "persists sn ext r"
  shows "\<exists>its ns. body_items r = Some its \<and> normalize_items sn its = Inr ns \<and>
           save_result ext = None \<and>
           placeOrder sn cfg ext r w =
             save_and_pay sn cfg ext (resolve_userId r) ns
               (new_order ext r (resolve_userId r) ns
                  (if body_paymentMethod r = JUndefined then JStr ''stripe''
                   else body_paymentMethod r)) w"
proof -
  from assms have uid: "truthy (resolve_userId r)" and sv: "save_result ext = None"
    by (simp_all add: persists_def)
  from assms obtain its where its: "body_items r = Some its" and ne: "its \<noteq> []"
    and "case normalize_items sn its of Inl e \<Rightarrow> False | Inr ns \<Rightarrow> True"
    by (cases "body_items r") (simp_all add: persists_def)
  then obtain ns where ns: "normalize_items sn its = Inr ns"
    by (cases "normalize_items sn its") simp_all
  from uid its ne ns have "placeOrder sn cfg ext r w =
             save_and_pay sn cfg ext (resolve_userId r) ns
               (new_order ext r (resolve_userId r) ns
                  (if body_paymentMethod r = JUndefined then JStr ''stripe''
                   else body_paymentMethod r)) w"
    by (simp add: placeOrder_def Let_def)
  with its ns sv show ?thesis by blast
qed

lemma not_persists_unchanged:
  assumes "\<not> persists sn ext r"
  shows "fst (placeOrder sn cfg ext r w) = w \<and>
         (\<exists>c m. snd (placeOrder sn cfg ext r w) = respond c (Message False m))"
proof (cases "truthy (resolve_userId r)")
  case False
  then show ?thesis by (simp add: placeOrder_def Let_def) blast
next
  case uid: True
  show ?thesis
  proof (cases "body_items r")
    case None
    with uid show ?thesis by (simp add: placeOrder_def Let_def) blast
  next
    case (Some its)
    show ?thesis
    proof (cases "its = []")
      case True
      with uid Some show ?thesis by (simp add: placeOrder_def Let_def) blast
    next
      case ne: False
      show ?thesis
      proof (cases "normalize_items sn its")
        case (Inl e)
        with uid Some ne show ?thesis by (simp add: placeOrder_def Let_def caught_def) blast
      next
        case (Inr ns)
        with assms uid Some ne obtain m where "save_result ext = Some m"
          by (cases "save_result ext") (simp_all add: persists_def)
        with uid Some ne Inr show ?thesis
          by (simp add: placeOrder_def Let_def save_and_pay_def caught_def) blast
      qed
    qed
  qed
qed

text \<open>
  Claim C7. A call with payment method \<^verbatim>\<open>'cod'\<close> or \<^verbatim>\<open>'none'\<close> sends nothing to the
  payment gateway. When it gets past the validation and the save, it answers with status
  201 and the created order, which is unpaid, has status \<^verbatim>\<open>'pending'\<close> and no session
  identifier, and is the one order added to the store; otherwise it answers with a
  failure and changes nothing.
\<close>

theorem cod_never_contacts_gateway:
  assumes pm: "body_paymentMethod r = JStr ''cod'' \<or> body_paymentMethod r = JStr ''none''"
  shows "gateway (fst (placeOrder sn cfg ext r w)) = gateway w \<and>
         (if persists sn ext r
          then \<exists>d. snd (placeOrder sn cfg ext r w) =
                      respond 201 (Order_placed d (Text ''Order placed (no online payment required).'')) \<and>
                    status d = JStr ''pending'' \<and> payment d = False \<and>
                    stripeSessionId d = JUndefined \<and>
                    orders (fst (placeOrder sn cfg ext r w)) = orders w @ [d]
          else fst (placeOrder sn cfg ext r w) = w \<and>
               (\<exists>c m. snd (placeOrder sn cfg ext r w) = respond c (Message False m)))"
proof (cases "persists sn ext r")
  case False
  with not_persists_unchanged [OF False, of cfg w] show ?thesis by simp
next
  case True
  from persists_save_and_pay [OF True, of cfg w] obtain ns where
    sv: "save_result ext = None" and
    po: "placeOrder sn cfg ext r w =
           save_and_pay sn cfg ext (resolve_userId r) ns
             (new_order ext r (resolve_userId r) ns
                (if body_paymentMethod r = JUndefined then JStr ''stripe''
                 else body_paymentMethod r)) w"
    by blast
  let ?d = "new_order ext r (resolve_userId r) ns (body_paymentMethod r)"
  from pm have pm': "(if body_paymentMethod r = JUndefined then JStr ''stripe''
                 else body_paymentMethod r) = body_paymentMethod r" by auto
  have d: "status ?d = JStr ''pending'' \<and> payment ?d = False \<and> stripeSessionId ?d = JUndefined"
    using pm by (auto simp: new_order_def)
  have "snd (placeOrder sn cfg ext r w) =
          respond 201 (Order_placed ?d (Text ''Order placed (no online payment required).'')) \<and>
        orders (fst (placeOrder sn cfg ext r w)) = orders w @ [?d] \<and>
        gateway (fst (placeOrder sn cfg ext r w)) = gateway w"
    unfolding po pm' using pm sv by (auto simp: save_and_pay_def Let_def new_order_def)
  with d True show ?thesis by auto
qed

text \<open>The theorem on a cash-on-delivery order of one item.\<close>

theorem cod_never_contacts_gateway_witness:
  "persists sn_example ext_ok (place_request [Some tea] (JStr ''cod'')) \<and>
   gateway (fst (placeOrder sn_example (cfg_fee None) ext_ok
                   (place_request [Some tea] (JStr ''cod'')) w0)) = [] \<and>
   code (snd (placeOrder sn_example (cfg_fee None) ext_ok
                (place_request [Some tea] (JStr ''cod'')) w0)) = 201 \<and>
   map status (orders (fst (placeOrder sn_example (cfg_fee None) ext_ok
                (place_request [Some tea] (JStr ''cod'')) w0))) = [JStr ''pending'']"
  using cod_never_contacts_gateway [of "place_request [Some tea] (JStr ''cod'')" sn_example
          "cfg_fee None" ext_ok w0]
  by (simp add: example_defs placeOrder_defs persists_def)

section \<open>Stored quantities\<close>

text \<open>
  Claim C8 does not hold of the code. The quantity is \<^verbatim>\<open>Number(it.quantity) || 1\<close> and is
  not checked further, so a negative (or fractional) quantity is stored as it is: the
  request below, with quantity \<open>-3\<close> for the first item and none for the second, is
  answered with status 201 and stored with the quantities \<open>-3\<close> and 1.
\<close>

theorem negative_quantity_stored:
  "code (snd (placeOrder sn_example (cfg_fee None) ext_ok
     (place_request [Some (mk_item ''tea'' (JNum (Fin 10)) (JNum (Fin (- 3)))),
                     Some (mk_item ''bun'' (JNum (Fin 50)) JUndefined)] (JStr ''cod'')) w0)) = 201 \<and>
   map (map n_quantity \<circ> items) (orders (fst (placeOrder sn_example (cfg_fee None) ext_ok
     (place_request [Some (mk_item ''tea'' (JNum (Fin 10)) (JNum (Fin (- 3)))),
                     Some (mk_item ''bun'' (JNum (Fin 50)) JUndefined)] (JStr ''cod'')) w0))) =
     [[Fin (- 3), Fin 1]]"
  by (simp add: example_defs placeOrder_defs)

section \<open>Clearing the cart\<close>

lemma clear_cart_lookup:
  "map_of (clear_cart u cs) u = map_option (\<lambda>c. []) (map_of cs u)"
  by (induction cs) auto

lemma findByIdAndUpdate_ids:
  "(\<And>d. o_id (f d) = o_id d) \<Longrightarrow> map o_id (findByIdAndUpdate v f ds) = map o_id ds"
  by (induction ds) auto

lemma checkout_carts: "carts (fst (checkout sn cfg ext ns d w)) = carts w"
  by (simp add: checkout_def Let_def split: sum.splits option.splits)

lemma checkout_ids:
  "map o_id (orders (fst (checkout sn cfg ext ns d w))) = map o_id (orders w)"
  by (simp add: checkout_def Let_def findByIdAndUpdate_ids split: sum.splits option.splits)

lemma checkout_carts_frame:
  "checkout sn cfg ext ns d (w\<lparr>carts := c\<rparr>) =
     ((fst (checkout sn cfg ext ns d w))\<lparr>carts := c\<rparr>, snd (checkout sn cfg ext ns d w))"
  by (simp add: checkout_def Let_def split: sum.splits option.splits)

lemma checkout_flag:
  "checkout sn cfg (ext\<lparr>cart_clear_fails := b\<rparr>) ns d w = checkout sn cfg ext ns d w"
  by (simp add: checkout_def Let_def split: sum.splits option.splits)

lemma save_and_pay_carts:
  assumes "save_result ext = None"
  shows "carts (fst (save_and_pay sn cfg ext uid ns d w)) =
           (if cart_clear_fails ext then carts w else clear_cart uid (carts w))"
  using assms by (simp add: save_and_pay_def Let_def checkout_carts)

lemma save_and_pay_ids:
  assumes "save_result ext = None"
  shows "map o_id (orders (fst (save_and_pay sn cfg ext uid ns d w))) = map o_id (orders w) @ [o_id d]"
  using assms by (simp add: save_and_pay_def Let_def checkout_ids)

lemma save_and_pay_flag:
  assumes "save_result ext = None"
  shows "save_and_pay sn cfg (ext\<lparr>cart_clear_fails := True\<rparr>) uid ns d w =
           ((fst (save_and_pay sn cfg (ext\<lparr>cart_clear_fails := False\<rparr>) uid ns d w))\<lparr>carts := carts w\<rparr>,
            snd (save_and_pay sn cfg (ext\<lparr>cart_clear_fails := False\<rparr>) uid ns d w))"
proof -
  let ?w1 = "w\<lparr>orders := orders w @ [d]\<rparr>"
  have eq: "(fst (checkout sn cfg ext ns d ?w1))\<lparr>carts := carts w\<rparr> = fst (checkout sn cfg ext ns d ?w1)"
    using checkout_carts [of sn cfg ext ns d ?w1] by simp
  show ?thesis
    using assms eq
    by (simp add: save_and_pay_def Let_def checkout_flag checkout_carts_frame prod_eq_iff)
qed

lemma persists_flag: "persists sn (ext\<lparr>cart_clear_fails := b\<rparr>) r = persists sn ext r"
  by (simp add: persists_def)

lemma new_order_flag: "new_order (ext\<lparr>cart_clear_fails := b\<rparr>) r uid ns pm = new_order ext r uid ns pm"
  by (simp add: new_order_def)

text \<open>
  Claim C9. Let a call of \<^verbatim>\<open>placeOrder\<close> get past the save. Whatever the payment method
  and whatever the gateway answers, the cart of the user is afterwards the empty mapping
  when the clearing step succeeds (a user without a record stays without one). When the
  clearing step fails, the response and the final state are those of the same call with
  a successful clearing, except that the carts are untouched. In both cases the store
  holds the former orders followed by the new one.
\<close>

theorem cart_cleared_after_save:
  assumes "persists sn ext r"
  shows "cart_of (resolve_userId r) (fst (placeOrder sn cfg ext r w)) =
           (if cart_clear_fails ext then cart_of (resolve_userId r) w
            else map_option (\<lambda>c. []) (cart_of (resolve_userId r) w)) \<and>
         placeOrder sn cfg (ext\<lparr>cart_clear_fails := True\<rparr>) r w =
           ((fst (placeOrder sn cfg (ext\<lparr>cart_clear_fails := False\<rparr>) r w))\<lparr>carts := carts w\<rparr>,
            snd (placeOrder sn cfg (ext\<lparr>cart_clear_fails := False\<rparr>) r w)) \<and>
         map o_id (orders (fst (placeOrder sn cfg ext r w))) = map o_id (orders w) @ [new_id ext]"
proof -
  let ?pm = "if body_paymentMethod r = JUndefined then JStr ''stripe'' else body_paymentMethod r"
  let ?uid = "resolve_userId r"
  from persists_save_and_pay [OF assms, of cfg w] obtain its ns where
    its: "body_items r = Some its" and ns: "normalize_items sn its = Inr ns" and
    sv: "save_result ext = None" and
    po: "placeOrder sn cfg ext r w = save_and_pay sn cfg ext ?uid ns (new_order ext r ?uid ns ?pm) w"
    by blast
  have pf: "placeOrder sn cfg (ext\<lparr>cart_clear_fails := b\<rparr>) r w =
      save_and_pay sn cfg (ext\<lparr>cart_clear_fails := b\<rparr>) ?uid ns (new_order ext r ?uid ns ?pm) w" for b
  proof -
    from assms have "persists sn (ext\<lparr>cart_clear_fails := b\<rparr>) r" by (simp add: persists_flag)
    from persists_save_and_pay [OF this, of cfg w] its ns show ?thesis
      by (auto simp: new_order_flag)
  qed
  have 1: "cart_of ?uid (fst (placeOrder sn cfg ext r w)) =
           (if cart_clear_fails ext then cart_of ?uid w
            else map_option (\<lambda>c. []) (cart_of ?uid w))"
    unfolding po cart_of_def by (simp add: save_and_pay_carts [OF sv] clear_cart_lookup)
  have sv': "save_result (ext\<lparr>cart_clear_fails := False\<rparr>) = None"
    using sv by simp
  have 2: "placeOrder sn cfg (ext\<lparr>cart_clear_fails := True\<rparr>) r w =
           ((fst (placeOrder sn cfg (ext\<lparr>cart_clear_fails := False\<rparr>) r w))\<lparr>carts := carts w\<rparr>,
            snd (placeOrder sn cfg (ext\<lparr>cart_clear_fails := False\<rparr>) r w))"
    unfolding pf using save_and_pay_flag [OF sv] .
  have 3: "map o_id (orders (fst (placeOrder sn cfg ext r w))) = map o_id (orders w) @ [new_id ext]"
    unfolding po by (simp add: save_and_pay_ids [OF sv] new_order_def)
  from 1 2 3 show ?thesis by blast
qed

text \<open>The theorem on an online order by a user with one product in the cart.\<close>

theorem cart_cleared_after_save_witness:
  "persists sn_example ext_ok (place_request [Some tea] JUndefined) \<and>
   cart_of (JStr ''u1'') w0 = Some [(''p1'', 2)] \<and>
   cart_of (JStr ''u1'')
     (fst (placeOrder sn_example (cfg_fee None) ext_ok (place_request [Some tea] JUndefined) w0)) =
     Some [] \<and>
   cart_of (JStr ''u1'')
     (fst (placeOrder sn_example (cfg_fee None) (ext_ok\<lparr>cart_clear_fails := True\<rparr>)
             (place_request [Some tea] JUndefined) w0)) = Some [(''p1'', 2)] \<and>
   snd (placeOrder sn_example (cfg_fee None) (ext_ok\<lparr>cart_clear_fails := True\<rparr>)
          (place_request [Some tea] JUndefined) w0) =
     respond 200 (Session_url (JStr ''https://pay'')) \<and>
   map o_id (orders (fst (placeOrder sn_example (cfg_fee None) (ext_ok\<lparr>cart_clear_fails := True\<rparr>)
          (place_request [Some tea] JUndefined) w0))) = [''o1'']"
  using cart_cleared_after_save [of sn_example ext_ok "place_request [Some tea] JUndefined"
          "cfg_fee None" w0]
  by (simp add: example_defs placeOrder_defs persists_def cart_of_def)

section \<open>The webhook protocol\<close>

lemma findByIdAndUpdate_no_match:
  "list_all (\<lambda>d. JStr (o_id d) \<noteq> v) ds \<Longrightarrow> findByIdAndUpdate v f ds = ds"
  by (induction ds) auto

lemma confirm_session_failure:
  "store_failure dl session ds \<Longrightarrow> \<exists>e. confirm_session dl session ds = Inl e"
  by (auto simp: store_failure_def confirm_session_def Let_def split: if_splits option.splits)

lemma confirm_session_ok:
  "\<not> store_failure dl session ds \<Longrightarrow>
   confirm_session dl session ds = Inr (confirmed_orders session ds)"
  by (auto simp: store_failure_def confirm_session_def confirmed_orders_def Let_def
      split: if_splits option.splits)

lemma confirmed_orders_no_match:
  "no_matching_order session ds \<Longrightarrow> confirmed_orders session ds = ds"
  by (auto simp: no_matching_order_def confirmed_orders_def findByIdAndUpdate_no_match
      split: if_splits)

lemma completed_event_handled:
  assumes "verified_event cfg dl = Inr ev"
    and "ev_type ev = JStr ''checkout.session.completed''"
    and "data_object ev = Some session"
  shows "stripeWebhookHandler cfg dl w =
           (case confirm_session dl session (orders w) of
              Inl e \<Rightarrow> (w, Responded (respond 500 Empty_body))
            | Inr ds \<Rightarrow> (w\<lparr>orders := ds\<rparr>, Responded (respond 200 Received)))"
  using assms by (simp add: stripeWebhookHandler_def)

text \<open>
  Claim C4. (1) With a secret configured, a delivery whose signature check throws is
  answered with status 400 and the text of the error, and the state is unchanged.
  (2) When the event is accepted, is a \<^verbatim>\<open>checkout.session.completed\<close> event with its
  session object, and a store call of the handler rejects, the answer is status 500 with
  an empty body. (3) When such an event resolves to no order and no store call rejects,
  the answer is the acknowledgement \<^verbatim>\<open>{ received: true }\<close> with status 200, and the
  state is unchanged.
\<close>

theorem webhook_protocol:
  "(webhookSecret_set cfg \<and> constructEvent dl = Inl m \<longrightarrow>
      stripeWebhookHandler cfg dl w = (w, Responded (respond 400 (Webhook_error m)))) \<and>
   (verified_event cfg dl = Inr ev \<and> ev_type ev = JStr ''checkout.session.completed'' \<and>
    data_object ev = Some session \<and> store_failure dl session (orders w) \<longrightarrow>
      stripeWebhookHandler cfg dl w = (w, Responded (respond 500 Empty_body))) \<and>
   (verified_event cfg dl = Inr ev \<and> ev_type ev = JStr ''checkout.session.completed'' \<and>
    data_object ev = Some session \<and> \<not> store_failure dl session (orders w) \<and>
    no_matching_order session (orders w) \<longrightarrow>
      stripeWebhookHandler cfg dl w = (w, acknowledged))"
proof (intro conjI impI)
  assume "webhookSecret_set cfg \<and> constructEvent dl = Inl m"
  then show "stripeWebhookHandler cfg dl w = (w, Responded (respond 400 (Webhook_error m)))"
    by (simp add: stripeWebhookHandler_def verified_event_def)
next
  assume a: "verified_event cfg dl = Inr ev \<and> ev_type ev = JStr ''checkout.session.completed'' \<and>
    data_object ev = Some session \<and> store_failure dl session (orders w)"
  then obtain e where "confirm_session dl session (orders w) = Inl e"
    using confirm_session_failure by blast
  with a show "stripeWebhookHandler cfg dl w = (w, Responded (respond 500 Empty_body))"
    by (simp add: completed_event_handled)
next
  assume a: "verified_event cfg dl = Inr ev \<and> ev_type ev = JStr ''checkout.session.completed'' \<and>
    data_object ev = Some session \<and> \<not> store_failure dl session (orders w) \<and>
    no_matching_order session (orders w)"
  then have "confirm_session dl session (orders w) = Inr (orders w)"
    by (simp add: confirm_session_ok confirmed_orders_no_match)
  with a show "stripeWebhookHandler cfg dl w = (w, acknowledged)"
    by (simp add: completed_event_handled acknowledged_def)
qed



text \<open>The three cases on the state after one online order: a forged signature, a store
  that times out, and an event for an unknown order.\<close>

theorem webhook_protocol_witness:
  "webhookSecret_set (cfg_fee None) \<and>
   stripeWebhookHandler (cfg_fee None) forged_delivery w_placed =
     (w_placed, Responded (respond 400
        (Webhook_error ''No signatures found matching the expected signature''))) \<and>
   store_failure (completed_delivery (Some (JStr ''o1'')) (JStr ''cs_1'') (Some ''timeout''))
     \<lparr>metadata = Some (JStr ''o1''), es_id = JStr ''cs_1''\<rparr> (orders w_placed) \<and>
   stripeWebhookHandler (cfg_fee None)
     (completed_delivery (Some (JStr ''o1'')) (JStr ''cs_1'') (Some ''timeout'')) w_placed =
     (w_placed, Responded (respond 500 Empty_body)) \<and>
   no_matching_order \<lparr>metadata = Some (JStr ''o9''), es_id = JStr ''cs_9''\<rparr> (orders w_placed) \<and>
   stripeWebhookHandler (cfg_fee None)
     (completed_delivery (Some (JStr ''o9'')) (JStr ''cs_9'') None) w_placed =
     (w_placed, acknowledged)"
  using webhook_protocol [of "cfg_fee None" forged_delivery
          "''No signatures found matching the expected signature''" w_placed]
        webhook_protocol [of "cfg_fee None"
          "completed_delivery (Some (JStr ''o1'')) (JStr ''cs_1'') (Some ''timeout'')" _ w_placed
          "completed_event (Some (JStr ''o1'')) (JStr ''cs_1'')"
          "\<lparr>metadata = Some (JStr ''o1''), es_id = JStr ''cs_1''\<rparr>"]
        webhook_protocol [of "cfg_fee None"
          "completed_delivery (Some (JStr ''o9'')) (JStr ''cs_9'') None" _ w_placed
          "completed_event (Some (JStr ''o9'')) (JStr ''cs_9'')"
          "\<lparr>metadata = Some (JStr ''o9''), es_id = JStr ''cs_9''\<rparr>"]
  by (simp add: example_defs placeOrder_defs verified_event_def webhookSecret_set_def
      store_failure_def no_matching_order_def session_orderId_def)

section \<open>Redelivery of a webhook event\<close>

lemma findByIdAndUpdate_idem:
  assumes "\<And>d. o_id (f d) = o_id d" and "\<And>d. f (f d) = f d"
  shows "findByIdAndUpdate v f (findByIdAndUpdate v f ds) = findByIdAndUpdate v f ds"
  using assms by (induction ds) auto

lemma findOne_by_session_update:
  assumes "\<And>d. o_id (f d) = o_id d" and "\<And>d. stripeSessionId (f d) = stripeSessionId d"
  shows "map_option o_id (findOne_by_session sid (findByIdAndUpdate v f ds)) =
         map_option o_id (findOne_by_session sid ds)"
  using assms by (induction ds) auto

lemma mark_paid_simps:
  "o_id (mark_paid d) = o_id d" "stripeSessionId (mark_paid d) = stripeSessionId d"
  "mark_paid (mark_paid d) = mark_paid d"
  by (simp_all add: mark_paid_def)

lemma findOne_mark_paid:
  "map_option o_id (findOne_by_session sid (findByIdAndUpdate v mark_paid ds)) =
   map_option o_id (findOne_by_session sid ds)"
  by (rule findOne_by_session_update) (simp_all add: mark_paid_simps)

lemma mark_paid_twice:
  "findByIdAndUpdate v mark_paid (findByIdAndUpdate v mark_paid ds) = findByIdAndUpdate v mark_paid ds"
  by (rule findByIdAndUpdate_idem) (simp_all add: mark_paid_simps)

lemma confirmed_orders_idem:
  "confirmed_orders session (confirmed_orders session ds) = confirmed_orders session ds"
proof (cases "truthy (session_orderId session)")
  case True
  then show ?thesis by (simp add: confirmed_orders_def mark_paid_twice)
next
  case no_id: False
  show ?thesis
  proof (cases "truthy (es_id session)")
    case False
    with no_id show ?thesis by (simp add: confirmed_orders_def)
  next
    case True
    show ?thesis
    proof (cases "findOne_by_session (es_id session) ds")
      case None
      with no_id True show ?thesis by (simp add: confirmed_orders_def)
    next
      case (Some d)
      let ?ds = "findByIdAndUpdate (JStr (o_id d)) mark_paid ds"
      from Some findOne_mark_paid [of "es_id session" "JStr (o_id d)" ds]
      obtain d' where d': "findOne_by_session (es_id session) ?ds = Some d'" "o_id d' = o_id d"
        by (cases "findOne_by_session (es_id session) ?ds") auto
      have "confirmed_orders session ds = ?ds"
        using no_id True Some by (simp add: confirmed_orders_def)
      moreover have "confirmed_orders session ?ds = findByIdAndUpdate (JStr (o_id d)) mark_paid ?ds"
        using no_id True d' by (simp add: confirmed_orders_def)
      ultimately show ?thesis by (simp add: mark_paid_twice)
    qed
  qed
qed

lemma findOne_confirmed_orders:
  "(findOne_by_session sid (confirmed_orders session ds) = None) =
   (findOne_by_session sid ds = None)"
proof -
  have "map_option o_id (findOne_by_session sid (confirmed_orders session ds)) =
        map_option o_id (findOne_by_session sid ds)"
    by (simp add: confirmed_orders_def findOne_mark_paid split: option.splits)
  then show ?thesis by (metis option.map_disc_iff)
qed

lemma store_failure_confirmed_orders:
  "store_failure dl session (confirmed_orders session ds) = store_failure dl session ds"
  by (simp add: store_failure_def findOne_confirmed_orders)

text \<open>Delivering one and the same delivery twice leaves the state of the first delivery,
  whatever the signature check and the store answer.\<close>

lemma webhook_same_delivery_twice:
  "fst (stripeWebhookHandler cfg dl (fst (stripeWebhookHandler cfg dl w))) =
   fst (stripeWebhookHandler cfg dl w)"
proof (cases "verified_event cfg dl")
  case (Inl m)
  then show ?thesis by (simp add: stripeWebhookHandler_def)
next
  case (Inr ev)
  show ?thesis
  proof (cases "ev_type ev = JStr ''checkout.session.completed''")
    case False
    with Inr show ?thesis by (simp add: stripeWebhookHandler_def)
  next
    case ty: True
    show ?thesis
    proof (cases "data_object ev")
      case None
      with Inr ty show ?thesis by (simp add: stripeWebhookHandler_def)
    next
      case (Some session)
      show ?thesis
      proof (cases "store_failure dl session (orders w)")
        case True
        then obtain e where "confirm_session dl session (orders w) = Inl e"
          using confirm_session_failure by blast
        then have "stripeWebhookHandler cfg dl w = (w, Responded (respond 500 Empty_body))"
          by (simp add: completed_event_handled [OF Inr ty Some])
        then show ?thesis by simp
      next
        case False
        let ?w1 = "w\<lparr>orders := confirmed_orders session (orders w)\<rparr>"
        have h1: "fst (stripeWebhookHandler cfg dl w) = ?w1"
          using False by (simp add: completed_event_handled [OF Inr ty Some] confirm_session_ok)
        from False have "\<not> store_failure dl session (orders ?w1)"
          by (simp add: store_failure_confirmed_orders)
        then have "fst (stripeWebhookHandler cfg dl ?w1) = ?w1"
          by (simp add: completed_event_handled [OF Inr ty Some] confirm_session_ok
              confirmed_orders_idem)
        with h1 show ?thesis by simp
      qed
    qed
  qed
qed

lemma completed_delivery_result:
  assumes "verified_event cfg dl = Inr ev"
    and "ev_type ev = JStr ''checkout.session.completed''"
    and "data_object ev = Some session"
  shows "stripeWebhookHandler cfg dl w =
           (if store_failure dl session (orders w) then (w, Responded (respond 500 Empty_body))
            else (w\<lparr>orders := confirmed_orders session (orders w)\<rparr>, acknowledged))"
proof (cases "store_failure dl session (orders w)")
  case True
  then obtain e where "confirm_session dl session (orders w) = Inl e"
    using confirm_session_failure by blast
  with True show ?thesis by (simp add: completed_event_handled [OF assms])
next
  case False
  then show ?thesis
    by (simp add: completed_event_handled [OF assms] confirm_session_ok acknowledged_def)
qed

text \<open>
  Claim C5, as the code has it. Let two deliveries carry the same accepted
  \<^verbatim>\<open>checkout.session.completed\<close> event, with its session object. A delivery during
  which no store call of the handler rejects is acknowledged; one during which a store
  call rejects is answered with status 500 and changes nothing. After both deliveries the
  state is the one a single successful delivery leaves, with the resolved order marked
  as paid, as soon as one of the two meets no rejection, and the initial state when both
  meet one. In particular, when neither meets a rejection, both are acknowledged and the
  second changes nothing.
\<close>

theorem webhook_redelivery:
  assumes ev1: "verified_event cfg dl1 = Inr ev" and ev2: "verified_event cfg dl2 = Inr ev"
    and ty: "ev_type ev = JStr ''checkout.session.completed''"
    and ob: "data_object ev = Some session"
  shows "snd (stripeWebhookHandler cfg dl1 w) =
           (if store_failure dl1 session (orders w) then Responded (respond 500 Empty_body)
            else acknowledged) \<and>
         fst (stripeWebhookHandler cfg dl1 w) =
           (if store_failure dl1 session (orders w) then w
            else w\<lparr>orders := confirmed_orders session (orders w)\<rparr>) \<and>
         snd (stripeWebhookHandler cfg dl2 (fst (stripeWebhookHandler cfg dl1 w))) =
           (if store_failure dl2 session (orders w) then Responded (respond 500 Empty_body)
            else acknowledged) \<and>
         fst (stripeWebhookHandler cfg dl2 (fst (stripeWebhookHandler cfg dl1 w))) =
           (if store_failure dl1 session (orders w) \<and> store_failure dl2 session (orders w) then w
            else w\<lparr>orders := confirmed_orders session (orders w)\<rparr>)"
proof -
  let ?done = "w\<lparr>orders := confirmed_orders session (orders w)\<rparr>"
  note h1 = completed_delivery_result [OF ev1 ty ob, of w]
  have h2: "stripeWebhookHandler cfg dl2 w' =
           (if store_failure dl2 session (orders w) then (w', Responded (respond 500 Empty_body))
            else (?done, acknowledged))" if "w' = w \<or> w' = ?done" for w'
  proof -
    from that have sf: "store_failure dl2 session (orders w') = store_failure dl2 session (orders w)"
      by (auto simp: store_failure_confirmed_orders)
    from that have "w'\<lparr>orders := confirmed_orders session (orders w')\<rparr> = ?done"
      by (auto simp: confirmed_orders_idem)
    with sf completed_delivery_result [OF ev2 ty ob, of w'] show ?thesis by simp
  qed
  show ?thesis
  proof (cases "store_failure dl1 session (orders w)")
    case True
    with h1 have w1: "stripeWebhookHandler cfg dl1 w = (w, Responded (respond 500 Empty_body))"
      by simp
    from h2 [of w] True show ?thesis unfolding w1 by simp
  next
    case False
    with h1 have w1: "stripeWebhookHandler cfg dl1 w = (?done, acknowledged)" by simp
    from h2 [of ?done] False show ?thesis unfolding w1 by simp
  qed
qed

text \<open>The theorem on the event of the order placed in \<open>w_placed\<close>: delivered twice with a
  store that answers, and delivered again after a delivery during which the store timed
  out.\<close>

theorem webhook_redelivery_witness:
  "verified_event (cfg_fee None) (completed_delivery (Some (JStr ''o1'')) (JStr ''cs_1'') None) =
     Inr (completed_event (Some (JStr ''o1'')) (JStr ''cs_1'')) \<and>
   snd (stripeWebhookHandler (cfg_fee None)
          (completed_delivery (Some (JStr ''o1'')) (JStr ''cs_1'') None) w_placed) = acknowledged \<and>
   snd (stripeWebhookHandler (cfg_fee None)
          (completed_delivery (Some (JStr ''o1'')) (JStr ''cs_1'') None)
          (fst (stripeWebhookHandler (cfg_fee None)
                  (completed_delivery (Some (JStr ''o1'')) (JStr ''cs_1'') None) w_placed))) =
     acknowledged \<and>
   map (\<lambda>d. (o_id d, payment d, status d))
     (orders (fst (stripeWebhookHandler (cfg_fee None)
          (completed_delivery (Some (JStr ''o1'')) (JStr ''cs_1'') None)
          (fst (stripeWebhookHandler (cfg_fee None)
                  (completed_delivery (Some (JStr ''o1'')) (JStr ''cs_1'') None) w_placed))))) =
     [(''o1'', True, JStr ''confirmed'')] \<and>
   snd (stripeWebhookHandler (cfg_fee None)
          (completed_delivery None (JStr ''cs_1'') (Some ''timeout'')) w_placed) =
     Responded (respond 500 Empty_body) \<and>
   snd (stripeWebhookHandler (cfg_fee None) (completed_delivery None (JStr ''cs_1'') None)
          (fst (stripeWebhookHandler (cfg_fee None)
                  (completed_delivery None (JStr ''cs_1'') (Some ''timeout'')) w_placed))) =
     acknowledged \<and>
   map (\<lambda>d. (o_id d, payment d, status d))
     (orders (fst (stripeWebhookHandler (cfg_fee None) (completed_delivery None (JStr ''cs_1'') None)
          (fst (stripeWebhookHandler (cfg_fee None)
                  (completed_delivery None (JStr ''cs_1'') (Some ''timeout'')) w_placed))))) =
     [(''o1'', True, JStr ''confirmed'')]"
  using webhook_redelivery [of "cfg_fee None"
          "completed_delivery (Some (JStr ''o1'')) (JStr ''cs_1'') None"
          "completed_event (Some (JStr ''o1'')) (JStr ''cs_1'')"
          "completed_delivery (Some (JStr ''o1'')) (JStr ''cs_1'') None"
          "\<lparr>metadata = Some (JStr ''o1''), es_id = JStr ''cs_1''\<rparr>" w_placed]
        webhook_redelivery [of "cfg_fee None"
          "completed_delivery None (JStr ''cs_1'') (Some ''timeout'')"
          "completed_event None (JStr ''cs_1'')"
          "completed_delivery None (JStr ''cs_1'') None"
          "\<lparr>metadata = None, es_id = JStr ''cs_1''\<rparr>" w_placed]
  by (simp add: example_defs placeOrder_defs handler_defs store_failure_def acknowledged_def
      confirmed_orders_def)

text \<open>
  Claim C5 as written fails when a store call rejects: the event below passes the
  signature check, and both of its deliveries, during which the update times out, are
  answered with status 500 instead of the acknowledgement.
\<close>

theorem webhook_redelivery_counterexample:
  "verified_event (cfg_fee None)
     (completed_delivery (Some (JStr ''o1'')) (JStr ''cs_1'') (Some ''timeout'')) =
     Inr (completed_event (Some (JStr ''o1'')) (JStr ''cs_1'')) \<and>
   snd (stripeWebhookHandler (cfg_fee None)
          (completed_delivery (Some (JStr ''o1'')) (JStr ''cs_1'') (Some ''timeout'')) w_placed) =
     Responded (respond 500 Empty_body) \<and>
   snd (stripeWebhookHandler (cfg_fee None)
          (completed_delivery (Some (JStr ''o1'')) (JStr ''cs_1'') (Some ''timeout''))
          (fst (stripeWebhookHandler (cfg_fee None)
                  (completed_delivery (Some (JStr ''o1'')) (JStr ''cs_1'') (Some ''timeout''))
                  w_placed))) =
     Responded (respond 500 Empty_body) \<and>
   Responded (respond 500 Empty_body) \<noteq> acknowledged"
  by (simp add: example_defs placeOrder_defs handler_defs acknowledged_def)

section \<open>verifyOrder\<close>

lemma find_order_update_same:
  "(\<And>d. o_id (f d) = o_id d) \<Longrightarrow>
   find_order i (findByIdAndUpdate (JStr i) f ds) = map_option f (find_order i ds)"
  by (induction ds) auto

lemma find_order_update_other:
  "(\<And>d. o_id (f d) = o_id d) \<Longrightarrow> j \<noteq> i \<Longrightarrow>
   find_order j (findByIdAndUpdate (JStr i) f ds) = find_order j ds"
  by (induction ds) auto

text \<open>
  Claim C6. Without an order identifier \<^verbatim>\<open>verifyOrder\<close> answers with status 400 and
  changes nothing. With the identifier of a stored order and an update that resolves:
  for \<^verbatim>\<open>success\<close> equal to \<^verbatim>\<open>true\<close> or \<^verbatim>\<open>'true'\<close> the order gets \<^verbatim>\<open>payment: true\<close> and
  status \<^verbatim>\<open>'confirmed'\<close>; for \<^verbatim>\<open>false\<close> or \<^verbatim>\<open>'false'\<close> it gets status \<^verbatim>\<open>'cancelled'\<close>
  and nothing else of it changes; in both cases the store keeps the same orders in the
  same places, the other orders are as before, and carts and gateway are untouched.
\<close>

theorem verifyOrder_outcomes:
  "(\<not> truthy (v_orderId r) \<longrightarrow>
      verifyOrder r w = (w, respond 400 (Message False (Text ''orderId required'')))) \<and>
   (v_orderId r = JStr i \<and> i \<noteq> [] \<and> v_update_result r = None \<and>
    find_order i (orders w) = Some d \<longrightarrow>
      ((v_success r = JBool True \<or> v_success r = JStr ''true'') \<longrightarrow>
         snd (verifyOrder r w) = respond 200 (Message True (Text ''Paid'')) \<and>
         find_order i (orders (fst (verifyOrder r w))) =
           Some (d\<lparr>payment := True, status := JStr ''confirmed''\<rparr>)) \<and>
      ((v_success r = JBool False \<or> v_success r = JStr ''false'') \<longrightarrow>
         snd (verifyOrder r w) = respond 200 (Message False (Text ''Not Paid'')) \<and>
         find_order i (orders (fst (verifyOrder r w))) = Some (d\<lparr>status := JStr ''cancelled''\<rparr>)) \<and>
      map o_id (orders (fst (verifyOrder r w))) = map o_id (orders w) \<and>
      (\<forall>j. j \<noteq> i \<longrightarrow> find_order j (orders (fst (verifyOrder r w))) = find_order j (orders w)) \<and>
      carts (fst (verifyOrder r w)) = carts w \<and> gateway (fst (verifyOrder r w)) = gateway w)"
proof (intro conjI impI)
  assume "\<not> truthy (v_orderId r)"
  then show "verifyOrder r w = (w, respond 400 (Message False (Text ''orderId required'')))"
    by (simp add: verifyOrder_def)
next
  assume a: "v_orderId r = JStr i \<and> i \<noteq> [] \<and> v_update_result r = None \<and>
    find_order i (orders w) = Some d"
  {
    assume s: "v_success r = JBool True \<or> v_success r = JStr ''true''"
    with a show "snd (verifyOrder r w) = respond 200 (Message True (Text ''Paid''))"
      by (auto simp: verifyOrder_def)
    from a s show "find_order i (orders (fst (verifyOrder r w))) =
           Some (d\<lparr>payment := True, status := JStr ''confirmed''\<rparr>)"
      by (auto simp: verifyOrder_def find_order_update_same mark_paid_def)
  }
  {
    assume s: "v_success r = JBool False \<or> v_success r = JStr ''false''"
    with a show "snd (verifyOrder r w) = respond 200 (Message False (Text ''Not Paid''))"
      by (auto simp: verifyOrder_def)
    from a s show "find_order i (orders (fst (verifyOrder r w))) = Some (d\<lparr>status := JStr ''cancelled''\<rparr>)"
      by (auto simp: verifyOrder_def find_order_update_same)
  }
  from a show "map o_id (orders (fst (verifyOrder r w))) = map o_id (orders w)"
    by (simp add: verifyOrder_def findByIdAndUpdate_ids mark_paid_def)
  from a show "\<forall>j. j \<noteq> i \<longrightarrow> find_order j (orders (fst (verifyOrder r w))) = find_order j (orders w)"
    by (simp add: verifyOrder_def find_order_update_other mark_paid_def)
  from a show "carts (fst (verifyOrder r w)) = carts w"
    by (simp add: verifyOrder_def)
  from a show "gateway (fst (verifyOrder r w)) = gateway w"
    by (simp add: verifyOrder_def)
qed

text \<open>The theorem on the order placed in \<open>w_placed\<close>.\<close>

theorem verifyOrder_outcomes_witness:
  "verifyOrder \<lparr>v_orderId = JUndefined, v_success = JBool True, v_update_result = None\<rparr> w_placed =
     (w_placed, respond 400 (Message False (Text ''orderId required''))) \<and>
   find_order ''o1'' (orders w_placed) = Some (hd (orders w_placed)) \<and>
   map (\<lambda>d. (o_id d, payment d, status d)) (orders w_placed) =
     [(''o1'', False, JStr ''awaiting_payment'')] \<and>
   map (\<lambda>d. (o_id d, payment d, status d))
     (orders (fst (verifyOrder (verify_request ''o1'' (JStr ''true'')) w_placed))) =
     [(''o1'', True, JStr ''confirmed'')] \<and>
   map (\<lambda>d. (o_id d, payment d, status d))
     (orders (fst (verifyOrder (verify_request ''o1'' (JBool False)) w_placed))) =
     [(''o1'', False, JStr ''cancelled'')]"
  using verifyOrder_outcomes [of "\<lparr>v_orderId = JUndefined, v_success = JBool True, v_update_result = None\<rparr>"
          w_placed]
        verifyOrder_outcomes [of "verify_request ''o1'' (JStr ''true'')" w_placed "''o1''"
          "hd (orders w_placed)"]
        verifyOrder_outcomes [of "verify_request ''o1'' (JBool False)" w_placed "''o1''"
          "hd (orders w_placed)"]
  by (simp add: example_defs placeOrder_defs handler_defs)

end
